theory Spec2Isabelle
  imports Complex_Main "HOL-Library.Char_ord" "HOL-Library.List_Lexorder"
begin

section \<open>Offline transform: missing values, normalisation and composite index (oecd_transform.py)\<close>

text \<open>
  The model starts at the wide table of line 86: one list of cells per dimension column,
  position \<open>i\<close> of every column belonging to country \<open>i\<close>. A cell is a float64; a number
  is modelled as the exact real it denotes and the missing value NaN as \<open>None\<close>.
\<close>

record wide_frame =
  height :: nat
  wcols :: "string \<rightharpoonup> real option list"

definition wellformed :: "wide_frame \<Rightarrow> bool" where
  "wellformed df = (\<forall>c vs. wcols df c = Some vs \<longrightarrow> length vs = height df)"

text \<open>\<open>key_measures\<close> (lines 29-41): measure name, short name, invert flag, description.\<close>

definition key_measures :: "(string \<times> string \<times> bool \<times> string) list" where
  "key_measures =
    [(''Life satisfaction'', ''life_satisfaction'', False, ''Overall life satisfaction score''),
     (''Life expectancy at birth'', ''health'', False, ''Years of life expectancy''),
     (''Households and NPISHs net adjusted disposable income per capita'', ''income'', False,
        ''Household income''),
     (''Adult literacy skills'', ''education'', False, ''Adult literacy proficiency''),
     (''Employment rate'', ''jobs'', False, ''Employment rate''),
     (''Long hours in paid work'', ''work_life_balance'', True, ''Working very long hours''),
     (''Homicides'', ''safety'', True, ''Homicide rate per 100k''),
     (''Access to green space'', ''environment'', False, ''Urban green space access''),
     (''Social support'', ''social_connections'', False, ''Having social support''),
     (''Housing affordability'', ''housing'', True, ''Housing cost burden'')]"

text \<open>Lines 94-95: the short names, in configuration order, that are columns of the frame.\<close>

definition dimension_cols :: "wide_frame \<Rightarrow> string list" where
  "dimension_cols df =
     filter (\<lambda>col. wcols df col \<noteq> None) (map (\<lambda>info. fst (snd info)) key_measures)"

text \<open>Line 149: \<open>[(k, v) for k, v in key_measures.items() if v[0] == col]\<close>.\<close>

definition measure_info :: "string \<Rightarrow> (string \<times> string \<times> bool \<times> string) list" where
  "measure_info col = filter (\<lambda>kv. fst (snd kv) = col) key_measures"

text \<open>The numbers of a column: pandas' reductions and ranks skip NaN.\<close>

fun observed :: "real option list \<Rightarrow> real list" where
  "observed [] = []"
| "observed (None # cells) = observed cells"
| "observed (Some v # cells) = v # observed cells"

definition set_col :: "wide_frame \<Rightarrow> string \<Rightarrow> real option list \<Rightarrow> wide_frame" where
  "set_col df col vs = df\<lparr>wcols := (wcols df)(col \<mapsto> vs)\<rparr>"

definition cell :: "wide_frame \<Rightarrow> string \<Rightarrow> nat \<Rightarrow> real option" where
  "cell df col i = (case wcols df col of Some xs \<Rightarrow> xs ! i | None \<Rightarrow> None)"

text \<open>
  Lines 117-124: a country is removed when more than 50 percent of its dimension cells are
  missing; the frame is rebuilt from the rows with at most 50 percent only when there is a
  country to remove. The list of dimension columns is not recomputed.
\<close>

definition missing_pct :: "wide_frame \<Rightarrow> string list \<Rightarrow> nat \<Rightarrow> real" where
  "missing_pct df cs i =
     real (length (filter (\<lambda>c. cell df c i = None) cs)) / real (length cs) * 100"

definition select_rows :: "wide_frame \<Rightarrow> nat list \<Rightarrow> wide_frame" where
  "select_rows df rows =
     \<lparr>height = length rows,
      wcols = (\<lambda>c. map_option (\<lambda>xs. map (\<lambda>i. xs ! i) rows) (wcols df c))\<rparr>"

definition drop_sparse :: "wide_frame \<Rightarrow> string list \<Rightarrow> wide_frame" where
  "drop_sparse df cs =
     (let countries_to_remove = filter (\<lambda>i. missing_pct df cs i > 50) [0..<height df]
      in if countries_to_remove = [] then df
         else select_rows df (filter (\<lambda>i. missing_pct df cs i \<le> 50) [0..<height df]))"

text \<open>
  Lines 127-131: a column with a missing cell has its missing cells filled with the mean of
  its numbers. The mean of a column without any number is NaN, and filling with NaN leaves
  the column as it is.
\<close>

definition nan_mean :: "real option list \<Rightarrow> real option" where
  "nan_mean cells =
     (case observed cells of [] \<Rightarrow> None | v # vs \<Rightarrow> Some (sum_list (v # vs) / real (length (v # vs))))"

definition fillna :: "real option \<Rightarrow> real option list \<Rightarrow> real option list" where
  "fillna avg_val cells = map (\<lambda>c. case c of None \<Rightarrow> avg_val | Some v \<Rightarrow> Some v) cells"

fun fill_loop :: "string list \<Rightarrow> wide_frame \<Rightarrow> wide_frame" where
  "fill_loop [] df = df"
| "fill_loop (col # rest) df =
     (case wcols df col of
        None \<Rightarrow> fill_loop rest df
      | Some xs \<Rightarrow>
          if None \<in> set xs then fill_loop rest (set_col df col (fillna (nan_mean xs) xs))
          else fill_loop rest df)"

text \<open>
  \<open>Series.rank(pct=True)\<close> with the default \<open>method='average'\<close>: a number's rank is the
  mean of the positions its tie group occupies in ascending order among the numbers of the
  column, divided by how many numbers there are; a NaN cell has rank NaN.
\<close>

definition rank_average :: "real list \<Rightarrow> real \<Rightarrow> real" where
  "rank_average xs v =
     real (length (filter (\<lambda>x. x < v) xs)) + (real (length (filter (\<lambda>x. x = v) xs)) + 1) / 2"

definition rank_pct :: "real list \<Rightarrow> real \<Rightarrow> real" where
  "rank_pct xs v = rank_average xs v / real (length xs)"

text \<open>Line 158: \<open>(1 - df_wide[col].rank(pct=True)) * 100\<close>.\<close>

definition invert_scale :: "real option list \<Rightarrow> real option list" where
  "invert_scale cells = map (map_option (\<lambda>v. (1 - rank_pct (observed cells) v) * 100)) cells"

fun col_min :: "real list \<Rightarrow> real" where
  "col_min [] = 0"
| "col_min (x # xs) = fold min xs x"

fun col_max :: "real list \<Rightarrow> real" where
  "col_max [] = 0"
| "col_max (x # xs) = fold max xs x"

text \<open>
  Lines 162-167: min-max scaling, and the constant 50.0 in every row when
  \<open>max_val > min_val\<close> is false. The minimum and maximum of a column without any number
  are NaN, and a comparison with NaN is false.
\<close>

definition minmax_scale :: "real option list \<Rightarrow> real option list" where
  "minmax_scale cells =
     (let min_val = col_min (observed cells); max_val = col_max (observed cells)
      in if observed cells \<noteq> [] \<and> max_val > min_val
         then map (map_option (\<lambda>v. ((v - min_val) / (max_val - min_val)) * 100)) cells
         else map (\<lambda>c. Some 50) cells)"

text \<open>
  Lines 147-167, the loop over \<open>dimension_cols\<close>. A name without an entry in
  \<open>key_measures\<close> is skipped (\<open>continue\<close>). The loop only visits columns of the frame, so
  the lookup \<open>df_wide[col]\<close> cannot miss; the model leaves the frame alone there.
\<close>

fun normalize_loop :: "string list \<Rightarrow> wide_frame \<Rightarrow> wide_frame" where
  "normalize_loop [] df = df"
| "normalize_loop (col # rest) df =
     (case measure_info col of
        [] \<Rightarrow> normalize_loop rest df
      | info # _ \<Rightarrow>
          (case wcols df col of
             None \<Rightarrow> normalize_loop rest df
           | Some xs \<Rightarrow>
               normalize_loop rest
                 (set_col df col
                    (if fst (snd (snd info)) then invert_scale xs else minmax_scale xs))))"

text \<open>
  \<open>Series.round(1)\<close> is numpy's rounding: scale by ten, round to the nearest integer with
  halves going to the even neighbour, scale back. NaN stays NaN.
\<close>

definition round_half_even :: "real \<Rightarrow> int" where
  "round_half_even y =
     (let f = \<lfloor>y\<rfloor>; d = y - of_int f
      in if d < 1 / 2 then f else if d > 1 / 2 then f + 1 else if even f then f else f + 1)"

definition round1 :: "real \<Rightarrow> real" where
  "round1 x = of_int (round_half_even (x * 10)) / 10"

text \<open>Lines 170-171.\<close>

fun round_loop :: "string list \<Rightarrow> wide_frame \<Rightarrow> wide_frame" where
  "round_loop [] df = df"
| "round_loop (col # rest) df =
     (case wcols df col of
        None \<Rightarrow> round_loop rest df
      | Some xs \<Rightarrow> round_loop rest (set_col df col (map (map_option round1) xs)))"

text \<open>
  Line 183: \<open>df_wide[dimension_cols].mean(axis=1).round(1)\<close>, the mean of the numbers of
  the row (NaN when the row has none).
\<close>

definition row_mean :: "wide_frame \<Rightarrow> string list \<Rightarrow> nat \<Rightarrow> real option" where
  "row_mean df cs i = nan_mean (map (\<lambda>c. cell df c i) cs)"

definition composite_index :: "wide_frame \<Rightarrow> string list \<Rightarrow> real option list" where
  "composite_index df cs = map (\<lambda>i. map_option round1 (row_mean df cs i)) [0..<height df]"

text \<open>Step 5 (lines 117-131), step 6 (lines 147-171), and steps 5 to 7 together.\<close>

definition prepared :: "wide_frame \<Rightarrow> wide_frame" where
  "prepared df = fill_loop (dimension_cols df) (drop_sparse df (dimension_cols df))"

definition normalized :: "wide_frame \<Rightarrow> wide_frame" where
  "normalized df = round_loop (dimension_cols df) (normalize_loop (dimension_cols df) df)"

definition transform :: "wide_frame \<Rightarrow> wide_frame \<times> real option list" where
  "transform df =
     (let df_wide = normalized (prepared df)
      in (df_wide, composite_index df_wide (dimension_cols df)))"


definition scaled :: "string \<Rightarrow> real option list \<Rightarrow> real option list" where
  "scaled col xs =
     (case measure_info col of
        [] \<Rightarrow> xs
      | info # _ \<Rightarrow> if fst (snd (snd info)) then invert_scale xs else minmax_scale xs)"

section \<open>The dashboard features: shared data model\<close>

text \<open>
  The three features read the table that the transform writes: the text columns
  \<open>country\<close> and \<open>country_code\<close>, and numeric columns (the dimensions that were present,
  \<open>composite_index\<close>, the gap columns). \<open>filter_data(get_data(), **kwargs)\<close> is not part of
  the sources at hand; its result, the filtered table, is the parameter \<open>df\<close> of every
  function below. Callback arguments are Python values: \<open>None\<close>, a string or a number.
\<close>

datatype pyval = PNone | PStr string | PNum real

type_synonym kwargs = "string \<rightharpoonup> pyval"

definition kwargs_get :: "kwargs \<Rightarrow> string \<Rightarrow> pyval \<Rightarrow> pyval" where
  "kwargs_get kw k dflt = (case kw k of None \<Rightarrow> dflt | Some v \<Rightarrow> v)"

text \<open>
  The exceptions of the model. The first five derive from \<open>Exception\<close>;
  \<open>KeyboardInterrupt\<close> and \<open>SystemExit\<close> derive from \<open>BaseException\<close> only, so the clause
  \<open>except Exception\<close> of the callbacks does not catch them.
\<close>

datatype py_error =
    KeyError pyval | TypeError | ValueError | AttributeError | IndexError
  | KeyboardInterrupt | SystemExit

definition is_Exception :: "py_error \<Rightarrow> bool" where
  "is_Exception e = (e \<noteq> KeyboardInterrupt \<and> e \<noteq> SystemExit)"

definition bind_err :: "py_error + 'a \<Rightarrow> ('a \<Rightarrow> py_error + 'b) \<Rightarrow> py_error + 'b" where
  "bind_err m f = (case m of Inl e \<Rightarrow> Inl e | Inr v \<Rightarrow> f v)"

datatype column = NumCol "real list" | StrCol "string list"

record dataframe =
  country :: "string list"
  country_code :: "string list"
  numeric :: "string \<rightharpoonup> real list"

definition len :: "dataframe \<Rightarrow> nat" where
  "len df = length (country df)"

text \<open>Every column of a pandas frame has one entry per row.\<close>

definition frame_ok :: "dataframe \<Rightarrow> bool" where
  "frame_ok df =
     (length (country_code df) = len df \<and> (\<forall>c xs. numeric df c = Some xs \<longrightarrow> length xs = len df))"

text \<open>\<open>df[key]\<close>: a missing label raises \<open>KeyError\<close>.\<close>

definition getitem :: "dataframe \<Rightarrow> pyval \<Rightarrow> py_error + column" where
  "getitem df key =
     (case key of
        PStr s \<Rightarrow>
          if s = ''country'' then Inr (StrCol (country df))
          else if s = ''country_code'' then Inr (StrCol (country_code df))
          else (case numeric df s of Some xs \<Rightarrow> Inr (NumCol xs) | None \<Rightarrow> Inl (KeyError key))
      | _ \<Rightarrow> Inl (KeyError key))"

text \<open>A numeric operand: arithmetic on a string (or on \<open>None\<close>) raises \<open>TypeError\<close>.\<close>

definition as_number :: "pyval \<Rightarrow> py_error + real" where
  "as_number v = (case v of PNum r \<Rightarrow> Inr r | _ \<Rightarrow> Inl TypeError)"

definition as_numeric :: "column \<Rightarrow> py_error + real list" where
  "as_numeric col = (case col of NumCol xs \<Rightarrow> Inr xs | StrCol _ \<Rightarrow> Inl TypeError)"

text \<open>
  \<open>dimension.replace('_', ' ').title()\<close>, on ASCII text: a letter is upper-cased when the
  character before it is not a letter, and lower-cased otherwise.
\<close>

definition lower_letters :: string where
  "lower_letters = ''abcdefghijklmnopqrstuvwxyz''"

definition upper_letters :: string where
  "upper_letters = ''ABCDEFGHIJKLMNOPQRSTUVWXYZ''"

definition is_letter :: "char \<Rightarrow> bool" where
  "is_letter c = (c \<in> set lower_letters \<or> c \<in> set upper_letters)"

definition to_upper :: "char \<Rightarrow> char" where
  "to_upper c = (case map_of (zip lower_letters upper_letters) c of Some u \<Rightarrow> u | None \<Rightarrow> c)"

definition to_lower :: "char \<Rightarrow> char" where
  "to_lower c = (case map_of (zip upper_letters lower_letters) c of Some l \<Rightarrow> l | None \<Rightarrow> c)"

fun title_from :: "bool \<Rightarrow> string \<Rightarrow> string" where
  "title_from prev [] = []"
| "title_from prev (c # cs) =
     (if prev then to_lower c else to_upper c) # title_from (is_letter c) cs"

definition py_title :: "string \<Rightarrow> string" where
  "py_title s = title_from False s"

definition replace_underscore :: "string \<Rightarrow> string" where
  "replace_underscore s = map (\<lambda>c. if c = CHR ''_'' then CHR '' '' else c) s"

definition dimension_title :: "pyval \<Rightarrow> py_error + string" where
  "dimension_title dimension =
     (case dimension of
        PStr s \<Rightarrow> Inr (py_title (replace_underscore s))
      | _ \<Rightarrow> Inl AttributeError)"

text \<open>
  What a feature hands back. A figure is its traces, its annotations and its axis titles
  (the constant styling attributes are left out); a text that embeds a value keeps the
  value.
\<close>

datatype trace =
    Scatter string column column "string list" string
  | Marker string real "real option" string
  | Bar "real list" "string list" "string list"

datatype annotation =
    Text string
  | NoDataFor pyval
  | Arrow real "real option" real real
  | VLine real

record figure =
  traces :: "trace list"
  annotations :: "annotation list"
  xaxis_title :: string
  yaxis_title :: string

definition note_figure :: "annotation \<Rightarrow> figure" where
  "note_figure n = \<lparr>traces = [], annotations = [n], xaxis_title = [], yaxis_title = []\<rparr>"

definition no_data_figure :: figure where
  "no_data_figure = note_figure (Text ''No data available'')"

definition error_figure :: figure where
  "error_figure = note_figure (Text ''An error occurred while updating this chart'')"

text \<open>
  The error output of a callback: the empty string, or the message that the handler builds
  from the exception (\<open>str(e)\<close> and the traceback). A callback returns its outputs together
  with the lines it printed, or raises.
\<close>

datatype error_text = NoError | ErrorUpdatingChart py_error

type_synonym 'a returned = "py_error + 'a \<times> error_text list"

definition hovertemplate :: "string \<Rightarrow> string \<Rightarrow> string \<Rightarrow> string" where
  "hovertemplate head title tail = head @ title @ '': %{x:.1f}<br>'' @ tail"

definition plain_tail :: string where
  "plain_tail = ''Life Satisfaction: %{y:.1f}<extra></extra>''"

text \<open>\<open>if x is None: x = default\<close>.\<close>

definition or_default :: "pyval \<Rightarrow> pyval \<Rightarrow> pyval" where
  "or_default v dflt = (if v = PNone then dflt else v)"

definition with_col :: "dataframe \<Rightarrow> string \<Rightarrow> real list \<Rightarrow> dataframe" where
  "with_col df name xs = df\<lparr>numeric := (numeric df)(name \<mapsto> xs)\<rparr>"

section \<open>Policy simulation scatter (policy.py): simulation mode (a)\<close>

definition policy_dimension_id :: string where
  "policy_dimension_id = ''policy_simulation_scatter_dimension''"

definition environment_slider_id :: string where
  "environment_slider_id = ''policy_simulation_scatter_environment_slider''"

definition education_slider_id :: string where
  "education_slider_id = ''policy_simulation_scatter_education_slider''"

definition jobs_slider_id :: string where
  "jobs_slider_id = ''policy_simulation_scatter_jobs_slider''"

definition dimension_default :: pyval where
  "dimension_default = PStr ''environment''"

text \<open>Lines 218-220: \<open>df_sim[name] * (1 + boost / 100)\<close>, operands evaluated left to right.\<close>

definition boosted :: "dataframe \<Rightarrow> string \<Rightarrow> pyval \<Rightarrow> py_error + real list" where
  "boosted df name boost =
     bind_err (getitem df (PStr name)) (\<lambda>col.
     bind_err (as_number boost) (\<lambda>b.
     bind_err (as_numeric col) (\<lambda>xs.
       Inr (map (\<lambda>v. v * (1 + b / 100)) xs))))"

text \<open>Lines 223-225: \<open>np.minimum(column, 100)\<close>.\<close>

definition cap100 :: "real list \<Rightarrow> real list" where
  "cap100 xs = map (\<lambda>v. min v 100) xs"

text \<open>Lines 228-238.\<close>

definition weights :: "(string \<times> real) list" where
  "weights =
    [(''environment'', 0.15), (''education'', 0.15), (''jobs'', 0.20), (''safety'', 0.10),
     (''income'', 0.10), (''housing'', 0.10), (''health'', 0.10),
     (''work_life_balance'', 0.05), (''social_connections'', 0.05)]"

definition weight :: "string \<Rightarrow> real" where
  "weight k = (case map_of weights k of Some w \<Rightarrow> w | None \<Rightarrow> 0)"

text \<open>One summand of lines 240-250: \<open>df_sim[col] * weights[k]\<close>.\<close>

definition weighted :: "dataframe \<Rightarrow> string \<Rightarrow> string \<Rightarrow> py_error + real list" where
  "weighted df col k =
     bind_err (getitem df (PStr col)) (\<lambda>c.
     bind_err (as_numeric c) (\<lambda>xs.
       Inr (map (\<lambda>v. v * weight k) xs)))"

definition col_add :: "real list \<Rightarrow> real list \<Rightarrow> real list" where
  "col_add xs ys = map (\<lambda>p. fst p + snd p) (zip xs ys)"

fun add_terms :: "dataframe \<Rightarrow> (string \<times> string) list \<Rightarrow> real list \<Rightarrow> py_error + real list" where
  "add_terms df [] acc = Inr acc"
| "add_terms df (t # rest) acc =
     bind_err (weighted df (fst t) (snd t)) (\<lambda>xs. add_terms df rest (col_add acc xs))"

definition life_satisfaction_sim :: "dataframe \<Rightarrow> py_error + real list" where
  "life_satisfaction_sim df_sim =
     bind_err (weighted df_sim ''environment_sim'' ''environment'') (\<lambda>first.
       add_terms df_sim
         [(''education_sim'', ''education''), (''jobs_sim'', ''jobs''), (''safety'', ''safety''),
          (''income'', ''income''), (''housing'', ''housing''), (''health'', ''health''),
          (''work_life_balance'', ''work_life_balance''),
          (''social_connections'', ''social_connections'')]
         first)"

text \<open>Lines 215-250: the simulated frame \<open>df_sim\<close>.\<close>

definition sim_frame :: "dataframe \<Rightarrow> pyval \<Rightarrow> pyval \<Rightarrow> pyval \<Rightarrow> py_error + dataframe" where
  "sim_frame df environment_boost education_boost jobs_boost =
     bind_err (boosted df ''environment'' environment_boost) (\<lambda>env.
     bind_err (boosted (with_col df ''environment_sim'' env) ''education'' education_boost) (\<lambda>edu.
     bind_err (boosted (with_col (with_col df ''environment_sim'' env) ''education_sim'' edu)
                 ''jobs'' jobs_boost) (\<lambda>jobs.
       let df_sim =
             with_col (with_col (with_col df ''environment_sim'' (cap100 env))
               ''education_sim'' (cap100 edu)) ''jobs_sim'' (cap100 jobs)
       in bind_err (life_satisfaction_sim df_sim) (\<lambda>ls.
            Inr (with_col df_sim ''life_satisfaction_sim'' ls)))))"

text \<open>Lines 253-260: the column plotted on the x axis of the simulated trace.\<close>

definition dimension_sim :: "dataframe \<Rightarrow> pyval \<Rightarrow> py_error + column" where
  "dimension_sim df_sim dimension =
     (if dimension = PStr ''environment'' then getitem df_sim (PStr ''environment_sim'')
      else if dimension = PStr ''education'' then getitem df_sim (PStr ''education_sim'')
      else if dimension = PStr ''jobs'' then getitem df_sim (PStr ''jobs_sim'')
      else getitem df_sim dimension)"

text \<open>
  Lines 300-313: one arrow per row that moved by more than 0.1 on either axis. The
  differences are taken between numbers; on a text column the subtraction raises at the
  first row.
\<close>

definition arrow_at :: "real list \<Rightarrow> real list \<Rightarrow> real list \<Rightarrow> real list \<Rightarrow> nat \<Rightarrow> annotation list" where
  "arrow_at dsim d lsim ls i =
     (if \<bar>dsim ! i - d ! i\<bar> > 0.1 \<or> \<bar>lsim ! i - ls ! i\<bar> > 0.1
      then [Arrow (dsim ! i) (Some (lsim ! i)) (d ! i) (ls ! i)]
      else [])"

definition arrows :: "nat \<Rightarrow> column \<Rightarrow> column \<Rightarrow> real list \<Rightarrow> real list \<Rightarrow> py_error + annotation list" where
  "arrows n dsim d lsim ls =
     (if n = 0 then Inr []
      else bind_err (as_numeric dsim) (\<lambda>xs.
           bind_err (as_numeric d) (\<lambda>os.
             Inr (concat (map (arrow_at xs os lsim ls) [0..<n])))))"

definition positive :: "pyval \<Rightarrow> bool" where
  "positive v = (case v of PNum r \<Rightarrow> r > 0 | _ \<Rightarrow> False)"

text \<open>Lines 184-322.\<close>

definition policy_update_logic :: "dataframe \<Rightarrow> kwargs \<Rightarrow> py_error + figure" where
  "policy_update_logic df kw =
     (if len df = 0 then Inr no_data_figure
      else
        let dimension = or_default (kwargs_get kw policy_dimension_id dimension_default)
                          dimension_default;
            environment_boost = or_default (kwargs_get kw environment_slider_id (PNum 0)) (PNum 0);
            education_boost = or_default (kwargs_get kw education_slider_id (PNum 0)) (PNum 0);
            jobs_boost = or_default (kwargs_get kw jobs_slider_id (PNum 0)) (PNum 0)
        in
        bind_err (sim_frame df environment_boost education_boost jobs_boost) (\<lambda>df_sim.
        bind_err (dimension_sim df_sim dimension) (\<lambda>dsim.
        bind_err (getitem df dimension) (\<lambda>x.
        bind_err (getitem df (PStr ''life_satisfaction'')) (\<lambda>y.
        bind_err (dimension_title dimension) (\<lambda>title.
        bind_err (as_numeric y) (\<lambda>ls.
        bind_err (getitem df_sim (PStr ''life_satisfaction_sim'')) (\<lambda>ysim.
        bind_err (as_numeric ysim) (\<lambda>lsim.
          let current =
                Scatter ''Current Position'' x y (country df)
                  (hovertemplate ''<b>%{text}</b><br>'' title plain_tail)
          in
          if positive environment_boost \<or> positive education_boost \<or> positive jobs_boost
          then
            bind_err (arrows (len df) dsim x lsim ls) (\<lambda>as.
              Inr \<lparr>traces =
                     [current,
                      Scatter ''Simulated Position'' dsim ysim (country df_sim)
                        (hovertemplate ''<b>%{text}</b><br>'' title
                           (''Life Satisfaction: %{y:.1f}<br>'' @
                            ''<i>After Policy Changes</i><extra></extra>''))],
                   annotations = as,
                   xaxis_title = title,
                   yaxis_title = ''Life Satisfaction''\<rparr>)
          else
            Inr \<lparr>traces = [current], annotations = [],
                 xaxis_title = title, yaxis_title = ''Life Satisfaction''\<rparr>)))))))))"

text \<open>
  Lines 337-350, the callback: the placeholder figure is built before the \<open>try\<close> (lines
  338-341, constructors on literal arguments); an exception of the update logic that derives
  from \<open>Exception\<close> is turned into the message, which is printed and returned with the
  placeholder (lines 347-350); any other exception propagates.
\<close>

definition policy_update :: "dataframe \<Rightarrow> kwargs \<Rightarrow> (figure \<times> error_text) returned" where
  "policy_update df kw =
     (let empty_fig = error_figure
      in case policy_update_logic df kw of
           Inr figure \<Rightarrow> Inr ((figure, NoError), [])
         | Inl e \<Rightarrow>
             if is_Exception e
             then (let error_msg = ErrorUpdatingChart e
                   in Inr ((empty_fig, error_msg), [error_msg]))
             else Inl e)"

section \<open>AI simulation insight (simulator.py): simulation mode (b)\<close>

definition sim_country_id :: string where
  "sim_country_id = ''produce_an_ai_narrative_text_country''"

definition sim_dimension_id :: string where
  "sim_dimension_id = ''produce_an_ai_narrative_text_dimension''"

definition sim_improvement_id :: string where
  "sim_improvement_id = ''produce_an_ai_narrative_text_improvement''"

text \<open>
  \<open>Series.corr\<close>, Pearson's coefficient. Where either column has no spread (in particular
  on a single row) the quotient is 0/0 and pandas returns NaN, rendered as \<open>None\<close>.
\<close>

definition mean :: "real list \<Rightarrow> real" where
  "mean xs = sum_list xs / real (length xs)"

definition co_moment :: "real list \<Rightarrow> real list \<Rightarrow> real" where
  "co_moment xs ys = sum_list (map (\<lambda>p. (fst p - mean xs) * (snd p - mean ys)) (zip xs ys))"

definition corr :: "real list \<Rightarrow> real list \<Rightarrow> real option" where
  "corr xs ys =
     (if co_moment xs xs = 0 \<or> co_moment ys ys = 0 then None
      else Some (co_moment xs ys / (sqrt (co_moment xs xs) * sqrt (co_moment ys ys))))"

text \<open>Row positions of \<open>df[df['country'] == name]\<close> and of \<open>df[df['country'].isin(names)]\<close>.\<close>

definition rows_where :: "dataframe \<Rightarrow> (string \<Rightarrow> bool) \<Rightarrow> nat list" where
  "rows_where df p = filter (\<lambda>i. p (country df ! i)) [0..<len df]"

definition take_rows :: "nat list \<Rightarrow> column \<Rightarrow> column" where
  "take_rows is col =
     (case col of
        NumCol xs \<Rightarrow> NumCol (map (\<lambda>i. xs ! i) is)
      | StrCol xs \<Rightarrow> StrCol (map (\<lambda>i. xs ! i) is))"

text \<open>The values that the narrative paragraph of lines 307-322 formats.\<close>

record insight =
  ins_country :: string
  ins_dimension_name :: string
  ins_improvement :: real
  ins_current_dimension_val :: real
  ins_new_dimension_val :: real
  ins_estimated_increase :: "real option"
  ins_current_life_sat :: real
  ins_new_life_sat :: "real option"
  ins_top_performer_text :: "(real \<times> real \<times> real \<times> real) option"

text \<open>The lines of the diagnostic narrative (diagonosis.py, lines 205-260), by template.\<close>

datatype part =
    Header string
  | Rule
  | Blank
  | StrengthsHeading
  | GapAbove string real
  | StrengthText string string "string option"
  | NoStrengthBullet string
  | NoStrengthText string
  | WeaknessHeading
  | GapBelow string real
  | WeaknessText string string "string option"
  | AttentionHeading
  | BalancedBullet string
  | BalancedText string
  | PolicyHeading
  | Recommendation string string string
  | MaintainRecommendation string

datatype narrative =
    NoDataAnalysis
  | NoDataForCountry pyval
  | Insight insight
  | Diagnostic "part list"
  | ErrorGenerating

text \<open>Lines 294-305: the comparison sentence, when both Finland and Denmark are in the table.\<close>

definition top_performer_text :: "dataframe \<Rightarrow> real list \<Rightarrow> real list \<Rightarrow> (real \<times> real \<times> real \<times> real) option" where
  "top_performer_text df xs ls =
     (case (rows_where df (\<lambda>c. c = ''Finland''), rows_where df (\<lambda>c. c = ''Denmark'')) of
        (f # _, d # _) \<Rightarrow> Some (xs ! f, ls ! f, xs ! d, ls ! d)
      | _ \<Rightarrow> None)"

text \<open>
  Lines 202-324, for the row \<open>i\<close> of the selected country. A text column as the dimension
  makes \<open>corr\<close> raise (no number can be read from a country name).
\<close>

definition simulate :: "dataframe \<Rightarrow> string \<Rightarrow> nat \<Rightarrow> pyval \<Rightarrow> pyval \<Rightarrow> py_error + figure \<times> narrative" where
  "simulate df name i dimension improvement =
     bind_err (getitem df (PStr ''life_satisfaction'')) (\<lambda>y.
     bind_err (as_numeric y) (\<lambda>ls.
     bind_err (getitem df dimension) (\<lambda>x.
     bind_err (case x of NumCol xs \<Rightarrow> Inr xs | StrCol _ \<Rightarrow> Inl ValueError) (\<lambda>xs.
     bind_err (as_number improvement) (\<lambda>imp.
     bind_err (dimension_title dimension) (\<lambda>title.
       let current_life_sat = ls ! i;
           current_dimension_val = xs ! i;
           correlation = corr ls xs;
           estimated_life_sat_increase = map_option (\<lambda>c. imp * c * 0.3) correlation;
           new_life_sat = map_option (\<lambda>e. current_life_sat + e) estimated_life_sat_increase;
           new_dimension_val = current_dimension_val + imp;
           top_rows = rows_where df (\<lambda>c. c \<in> set [''Finland'', ''Denmark''])
       in Inr
         (\<lparr>traces =
             [Scatter ''Other Countries'' x y (country df)
                (hovertemplate ''<b>%{text}</b><br>'' title plain_tail)] @
             (if top_rows = [] then []
              else [Scatter ''Top Performers'' (take_rows top_rows x) (take_rows top_rows y)
                      (map (\<lambda>r. country df ! r) top_rows)
                      (hovertemplate ''<b>%{text}</b><br>'' title plain_tail)]) @
             [Marker (name @ '' (Current)'') current_dimension_val (Some current_life_sat)
                (hovertemplate (''<b>'' @ name @ '' (Current)</b><br>'') title plain_tail),
              Marker (name @ '' (Simulated)'') new_dimension_val new_life_sat
                (hovertemplate (''<b>'' @ name @ '' (Simulated)</b><br>'') title plain_tail)],
           annotations =
             [Arrow new_dimension_val new_life_sat current_dimension_val current_life_sat],
           xaxis_title = title,
           yaxis_title = ''Life Satisfaction''\<rparr>,
          Insight
            \<lparr>ins_country = name, ins_dimension_name = title, ins_improvement = imp,
             ins_current_dimension_val = current_dimension_val,
             ins_new_dimension_val = new_dimension_val,
             ins_estimated_increase = estimated_life_sat_increase,
             ins_current_life_sat = current_life_sat,
             ins_new_life_sat = new_life_sat,
             ins_top_performer_text = top_performer_text df xs ls\<rparr>)))))))"

text \<open>
  Lines 163-200 and the call of the above. A control value that is not a string equals no
  country name, so it selects no row.
\<close>

definition simulator_update_logic :: "dataframe \<Rightarrow> kwargs \<Rightarrow> py_error + figure \<times> narrative" where
  "simulator_update_logic df kw =
     (if len df = 0 then Inr (no_data_figure, NoDataAnalysis)
      else
        let country = or_default (kwargs_get kw sim_country_id (PStr ''United States''))
                        (PStr ''United States'');
            dimension = or_default (kwargs_get kw sim_dimension_id (PStr ''environment''))
                          (PStr ''environment'');
            improvement = or_default (kwargs_get kw sim_improvement_id (PNum 10)) (PNum 10)
        in
        case country of
          PStr name \<Rightarrow>
            (case rows_where df (\<lambda>c. c = name) of
               [] \<Rightarrow> Inr (note_figure (NoDataFor country), NoDataForCountry country)
             | i # _ \<Rightarrow> simulate df name i dimension improvement)
        | _ \<Rightarrow> Inr (note_figure (NoDataFor country), NoDataForCountry country))"

text \<open>Lines 339-352: the callback, built like the one of the policy scatter.\<close>

definition simulator_update :: "dataframe \<Rightarrow> kwargs \<Rightarrow> (figure \<times> narrative \<times> error_text) returned" where
  "simulator_update df kw =
     (let empty_fig = error_figure
      in case simulator_update_logic df kw of
           Inr r \<Rightarrow> Inr ((fst r, snd r, NoError), [])
         | Inl e \<Rightarrow>
             if is_Exception e
             then (let error_msg = ErrorUpdatingChart e
                   in Inr ((empty_fig, ErrorGenerating, error_msg), [error_msg]))
             else Inl e)"

section \<open>Country wellbeing diagnostic (diagonosis.py): the narrative generator\<close>

definition diag_country_id :: string where
  "diag_country_id = ''add_an_ai_narrative_text_box_country''"

text \<open>Lines 132-149: the gap columns with their display names, in the order of the list.\<close>

definition gap_columns :: "(string \<times> string) list" where
  "gap_columns =
    [(''life_satisfaction_gap'', ''Life Satisfaction''), (''health_gap'', ''Health''),
     (''income_gap'', ''Income''), (''education_gap'', ''Education''), (''jobs_gap'', ''Jobs''),
     (''work_life_balance_gap'', ''Work-Life Balance''), (''safety_gap'', ''Safety''),
     (''environment_gap'', ''Environment''), (''social_connections_gap'', ''Social Connections''),
     (''housing_gap'', ''Housing'')]"

text \<open>
  Lines 151-160: label and gap of every gap column the table has, for the row \<open>i\<close> of the
  selected country (the pairs that line 191 zips together).
\<close>

definition country_gaps :: "dataframe \<Rightarrow> nat \<Rightarrow> (string \<times> real) list" where
  "country_gaps df i =
     concat (map (\<lambda>g. case numeric df (fst g) of Some xs \<Rightarrow> [(snd g, xs ! i)] | None \<Rightarrow> [])
               gap_columns)"

definition bar_colors :: "real list \<Rightarrow> string list" where
  "bar_colors gs = map (\<lambda>g. if g \<ge> 0 then ''#2E8B57'' else ''#DC143C'') gs"

text \<open>
  Line 192: \<open>dimension_gaps.sort(key=lambda x: x[1], reverse=True)\<close>. Python's sort is
  stable, also when reversed: entries with equal gaps keep their order.
\<close>

definition sort_gaps :: "(string \<times> real) list \<Rightarrow> (string \<times> real) list" where
  "sort_gaps dimension_gaps = sort_key (\<lambda>d. - snd d) dimension_gaps"

text \<open>Lines 195-196, on the sorted list.\<close>

definition strengths :: "(string \<times> real) list \<Rightarrow> (string \<times> real) list" where
  "strengths sorted_gaps = take 2 (filter (\<lambda>d. snd d > 0) sorted_gaps)"

definition weaknesses :: "(string \<times> real) list \<Rightarrow> (string \<times> real) list" where
  "weaknesses sorted_gaps =
     (let neg = filter (\<lambda>d. snd d < 0) sorted_gaps in drop (length neg - 2) neg)"

text \<open>Line 203.\<close>

definition worst_dimension :: "(string \<times> real) list \<Rightarrow> string" where
  "worst_dimension sorted_gaps =
     (if sorted_gaps = [] then ''overall wellbeing'' else fst (last sorted_gaps))"

text \<open>
  Lines 199-200: \<open>df.groupby('country')['composite_index'].first()\<close> has one entry per
  country name, names ascending, holding the value of the name's first row;
  \<open>sort_values(ascending=False)\<close> orders the entries by value, and the label of the first
  one is the top performer. Selecting a column that the grouped table does not have raises
  \<open>KeyError('Column not found: composite_index')\<close>. Among entries with equal values
  pandas' default sort fixes no order; the model keeps them in name order, and nothing below
  depends on that order.
\<close>

definition group_first :: "(string \<times> real) list \<Rightarrow> (string \<times> real) list" where
  "group_first rows =
     concat (map (\<lambda>name. case map_of rows name of Some v \<Rightarrow> [(name, v)] | None \<Rightarrow> [])
               (sort (remdups (map fst rows))))"

definition composite_scores :: "dataframe \<Rightarrow> py_error + (string \<times> real) list" where
  "composite_scores df =
     (case numeric df ''composite_index'' of
        None \<Rightarrow> Inl (KeyError (PStr ''Column not found: composite_index''))
      | Some composite \<Rightarrow>
          Inr (sort_key (\<lambda>p. - snd p) (group_first (zip (country df) composite))))"

definition top_performer :: "dataframe \<Rightarrow> py_error + string" where
  "top_performer df =
     bind_err (composite_scores df) (\<lambda>scores.
       case scores of [] \<Rightarrow> Inl IndexError | p # _ \<Rightarrow> Inr (fst p))"

text \<open>Lines 205-260: the narrative, line by line.\<close>

definition strengths_section :: "string \<Rightarrow> (string \<times> real) list \<Rightarrow> part list" where
  "strengths_section name ss =
     (case ss of
        [] \<Rightarrow>
          [StrengthsHeading, NoStrengthBullet name, Blank, NoStrengthText name]
      | s # others \<Rightarrow>
          [StrengthsHeading] @ map (\<lambda>d. GapAbove (fst d) (snd d)) ss @ [Blank] @
          [StrengthText name (fst s) (case others of [] \<Rightarrow> None | t # _ \<Rightarrow> Some (fst t))])"

definition weaknesses_section :: "string \<Rightarrow> (string \<times> real) list \<Rightarrow> part list" where
  "weaknesses_section name ws =
     (if ws = [] then
        [AttentionHeading, BalancedBullet name, Blank, BalancedText name]
      else
        [WeaknessHeading] @ map (\<lambda>d. GapBelow (fst d) (snd d)) ws @ [Blank] @
        [WeaknessText name (fst (last ws))
           (if length ws > 1 then Some (fst (ws ! (length ws - 2))) else None)])"

definition generate_narrative :: "string \<Rightarrow> (string \<times> real) list \<Rightarrow> dataframe \<Rightarrow> py_error + part list" where
  "generate_narrative name dimension_gaps df =
     (let sorted_gaps = sort_gaps dimension_gaps;
          ss = strengths sorted_gaps;
          ws = weaknesses sorted_gaps
      in bind_err (top_performer df) (\<lambda>top.
           Inr ([Header name, Rule] @ strengths_section name ss @ [Blank] @
                weaknesses_section name ws @ [Blank, PolicyHeading] @
                [if ws \<noteq> [] then Recommendation (worst_dimension sorted_gaps) name top
                 else MaintainRecommendation name])))"

text \<open>Lines 100-185.\<close>

definition diagnosis_update_logic :: "dataframe \<Rightarrow> kwargs \<Rightarrow> py_error + figure \<times> narrative" where
  "diagnosis_update_logic df kw =
     (if len df = 0 then Inr (no_data_figure, NoDataAnalysis)
      else
        let selected_country = or_default (kwargs_get kw diag_country_id (PStr ''Finland''))
                                 (PStr ''Finland'')
        in
        case selected_country of
          PStr name \<Rightarrow>
            (case rows_where df (\<lambda>c. c = name) of
               [] \<Rightarrow> Inr (note_figure (NoDataFor selected_country),
                          NoDataForCountry selected_country)
             | i # _ \<Rightarrow>
                 let gaps = country_gaps df i in
                 bind_err (generate_narrative name gaps df) (\<lambda>parts.
                   Inr (\<lparr>traces = [Bar (map snd gaps) (map fst gaps) (bar_colors (map snd gaps))],
                         annotations = [VLine 0],
                         xaxis_title = ''Performance Gap (points above/below OECD average)'',
                         yaxis_title = ''Wellbeing Dimensions''\<rparr>,
                        Diagnostic parts)))
        | _ \<Rightarrow> Inr (note_figure (NoDataFor selected_country),
                   NoDataForCountry selected_country))"

text \<open>Lines 273-296: the callback, built like the one of the policy scatter.\<close>

definition diagnosis_update :: "dataframe \<Rightarrow> kwargs \<Rightarrow> (figure \<times> narrative \<times> error_text) returned" where
  "diagnosis_update df kw =
     (let empty_fig = error_figure
      in case diagnosis_update_logic df kw of
           Inr r \<Rightarrow> Inr ((fst r, snd r, NoError), [])
         | Inl e \<Rightarrow>
             if is_Exception e
             then (let error_msg = ErrorUpdatingChart e
                   in Inr ((empty_fig, ErrorGenerating, error_msg), [error_msg]))
             else Inl e)"

section \<open>Auxiliary definitions and concrete tables\<close>

text \<open>Line 153, \<open>should_invert = measure_info[0][1][1]\<close>, as a function of the column name.\<close>

definition inverts :: "string \<Rightarrow> bool" where
  "inverts col = (case measure_info col of [] \<Rightarrow> False | info # _ \<Rightarrow> fst (snd (snd info)))"

text \<open>
  Four countries with raw homicide rates and life expectancies, the first one with the
  lowest homicide rate; two countries sharing every raw value; and three countries of which
  the third alone reports a homicide rate and reports nothing else.
\<close>

definition demo_wide :: wide_frame where
  "demo_wide =
     \<lparr>height = 4,
      wcols = [''safety'' \<mapsto> [Some (1 / 2), Some 1, Some (13 / 5), Some (259 / 10)],
               ''health'' \<mapsto> [Some 82, Some 80, Some 78, Some 75]]\<rparr>"

definition constant_wide :: wide_frame where
  "constant_wide =
     \<lparr>height = 2,
      wcols = [''safety'' \<mapsto> [Some (6 / 5), Some (6 / 5)], ''health'' \<mapsto> [Some 80, Some 80]]\<rparr>"

definition sparse_wide :: wide_frame where
  "sparse_wide =
     \<lparr>height = 3,
      wcols = [''health'' \<mapsto> [Some 82, Some 78, None],
               ''income'' \<mapsto> [Some 30, Some 20, None],
               ''safety'' \<mapsto> [None, None, Some (6 / 5)]]\<rparr>"

text \<open>A cell that is NaN or a number between 0 and 100.\<close>

definition nan_or_in_range :: "real option list \<Rightarrow> bool" where
  "nan_or_in_range cells = (\<forall>v. Some v \<in> set cells \<longrightarrow> 0 \<le> v \<and> v \<le> 100)"

text \<open>The specification's formula for a boosted dimension in mode (a).\<close>

definition simulated :: "real \<Rightarrow> real \<Rightarrow> real" where
  "simulated raw boost = min (raw * (1 + boost / 100)) 100"

text \<open>The columns that \<open>df_sim\<close> adds to the table.\<close>

definition sim_names :: "string list" where
  "sim_names = [''environment_sim'', ''education_sim'', ''jobs_sim'', ''life_satisfaction_sim'']"

text \<open>A table of three countries with every column the transform writes.\<close>

definition demo_table :: dataframe where
  "demo_table =
     \<lparr>country = [''Finland'', ''Denmark'', ''Mexico''],
      country_code = [''FIN'', ''DNK'', ''MEX''],
      numeric = map_of
        [(''life_satisfaction'', [100, 90, 0]), (''health'', [85, 80, 10]),
         (''income'', [60, 70, 5]), (''education'', [90, 80, 10]), (''jobs'', [70, 75, 30]),
         (''work_life_balance'', [60, 90, 0]), (''safety'', [75, 50, 0]),
         (''environment'', [80, 70, 20]), (''social_connections'', [95, 85, 0]),
         (''housing'', [50, 25, 75]), (''composite_index'', [76.5, 71.5, 15]),
         (''life_satisfaction_gap'', [36.7, 26.7, -63.3]), (''health_gap'', [26.7, 21.7, -48.3]),
         (''income_gap'', [15, 25, -40]), (''education_gap'', [30, 20, -50]),
         (''jobs_gap'', [11.7, 16.7, -28.3]), (''work_life_balance_gap'', [10, 40, -50]),
         (''safety_gap'', [33.3, 8.3, -41.7]), (''environment_gap'', [23.3, 13.3, -36.7]),
         (''social_connections_gap'', [35, 25, -60]), (''housing_gap'', [0, -25, 25])]\<rparr>"

text \<open>The sum of lines 240-250 over nine given columns, in the order of the source.\<close>

definition proxy :: "real list \<Rightarrow> real list \<Rightarrow> real list \<Rightarrow> real list \<Rightarrow> real list \<Rightarrow> real list \<Rightarrow>
    real list \<Rightarrow> real list \<Rightarrow> real list \<Rightarrow> real list" where
  "proxy env edu jobs saf inc hou hea wlb soc =
     col_add (col_add (col_add (col_add (col_add (col_add (col_add (col_add
       (map (\<lambda>v. v * weight ''environment'') env)
       (map (\<lambda>v. v * weight ''education'') edu))
       (map (\<lambda>v. v * weight ''jobs'') jobs))
       (map (\<lambda>v. v * weight ''safety'') saf))
       (map (\<lambda>v. v * weight ''income'') inc))
       (map (\<lambda>v. v * weight ''housing'') hou))
       (map (\<lambda>v. v * weight ''health'') hea))
       (map (\<lambda>v. v * weight ''work_life_balance'') wlb))
       (map (\<lambda>v. v * weight ''social_connections'') soc)"

text \<open>The table has the nine columns that the weighted sum reads, with these values.\<close>

definition base_columns :: "dataframe \<Rightarrow> real list list \<Rightarrow> bool" where
  "base_columns df cols =
     (map (numeric df)
        [''environment'', ''education'', ''jobs'', ''safety'', ''income'', ''housing'',
         ''health'', ''work_life_balance'', ''social_connections'']
      = map Some cols)"


text \<open>A slider argument that leaves the boost at zero: absent, \<open>None\<close> or 0.\<close>

definition zero_boost :: "pyval option \<Rightarrow> bool" where
  "zero_boost v = (v = None \<or> v = Some PNone \<or> v = Some (PNum 0))"

text \<open>The value a feature uses for a control: \<open>kwargs.get\<close>, then the \<open>None\<close> check.\<close>

definition selected :: "kwargs \<Rightarrow> string \<Rightarrow> pyval \<Rightarrow> pyval" where
  "selected kw k dflt = or_default (kwargs_get kw k dflt) dflt"

text \<open>Callback arguments used as concrete inputs.\<close>

definition no_inputs :: kwargs where
  "no_inputs = Map.empty"


definition finland_social :: kwargs where
  "finland_social =
     [sim_country_id \<mapsto> PStr ''Finland'', sim_dimension_id \<mapsto> PStr ''social_connections'',
      sim_improvement_id \<mapsto> PNum 10]"

text \<open>The two single-point traces of mode (b), lines 245-266.\<close>

definition simulated_point :: "string \<Rightarrow> string \<Rightarrow> real \<Rightarrow> real option \<Rightarrow> trace" where
  "simulated_point name dname x y =
     Marker (name @ '' (Simulated)'') x y
       (hovertemplate (''<b>'' @ name @ '' (Simulated)</b><br>'')
          (py_title (replace_underscore dname)) plain_tail)"

definition current_point :: "string \<Rightarrow> string \<Rightarrow> real \<Rightarrow> real \<Rightarrow> trace" where
  "current_point name dname x y =
     Marker (name @ '' (Current)'') x (Some y)
       (hovertemplate (''<b>'' @ name @ '' (Current)</b><br>'')
          (py_title (replace_underscore dname)) plain_tail)"




text \<open>A computation that raises nothing but exceptions deriving from \<open>Exception\<close>.\<close>

definition ordinary :: "py_error + 'a \<Rightarrow> bool" where
  "ordinary m = (case m of Inl e \<Rightarrow> is_Exception e | Inr v \<Rightarrow> True)"


text \<open>Arguments and a table on which the update logic raises.\<close>

definition unknown_dimension :: kwargs where
  "unknown_dimension = [policy_dimension_id \<mapsto> PStr ''wealth'']"

definition text_boost :: kwargs where
  "text_boost = [environment_slider_id \<mapsto> PStr ''ten'']"

definition finland_by_name :: kwargs where
  "finland_by_name = [sim_country_id \<mapsto> PStr ''Finland'', sim_dimension_id \<mapsto> PStr ''country'']"

definition no_composite :: dataframe where
  "no_composite = demo_table\<lparr>numeric := (numeric demo_table)(''composite_index'' := None)\<rparr>"

section \<open>Properties of the transform\<close>

lemma filter_lt_eq_le: "length (filter (\<lambda>x. x < v) xs) + length (filter (\<lambda>x. x = v) xs) \<le> length xs"
  for v :: real
  by (induction xs) auto

lemma filter_eq_pos: "v \<in> set xs \<Longrightarrow> 1 \<le> length (filter (\<lambda>x. x = v) xs)"
  for v :: real
  by (induction xs) auto

lemma rank_arith:
  fixes l e n :: real
  assumes "1 \<le> e" "0 \<le> l" "l + e \<le> n"
  shows "1 \<le> l + (e + 1) / 2" "l + (e + 1) / 2 \<le> n"
  using assms by (simp_all add: field_simps)

lemma rank_average_bounds:
  assumes "v \<in> set xs"
  shows "1 \<le> rank_average xs v" and "rank_average xs v \<le> real (length xs)"
proof -
  let ?l = "length (filter (\<lambda>x. x < v) xs)" and ?e = "length (filter (\<lambda>x. x = v) xs)"
  have e: "1 \<le> ?e" using assms by (rule filter_eq_pos)
  have le: "?l + ?e \<le> length xs" by (rule filter_lt_eq_le)
  have e': "1 \<le> real ?e" using e by simp
  have le': "real ?l + real ?e \<le> real (length xs)" using le by (metis of_nat_add of_nat_le_iff)
  have l0: "0 \<le> real ?l" by simp
  show "1 \<le> rank_average xs v" unfolding rank_average_def by (rule rank_arith(1)[OF e' l0 le'])
  show "rank_average xs v \<le> real (length xs)" unfolding rank_average_def by (rule rank_arith(2)[OF e' l0 le'])
qed

lemma rank_pct_bounds:
  assumes "v \<in> set xs"
  shows "0 < rank_pct xs v" and "rank_pct xs v \<le> 1"
proof -
  have n: "0 < real (length xs)" using assms by (cases xs) auto
  show "0 < rank_pct xs v" unfolding rank_pct_def using rank_average_bounds(1)[OF assms] n by simp
  show "rank_pct xs v \<le> 1" unfolding rank_pct_def using rank_average_bounds(2)[OF assms] n by simp
qed

lemma fold_min_le: "fold min xs a \<le> a" "v \<in> set xs \<Longrightarrow> fold min xs a \<le> v"
  for a :: real
proof (induction xs arbitrary: a)
  case Nil
  { case 1 show ?case by simp }
  { case 2 then show ?case by simp }
next
  case (Cons x xs)
  { case 1 show ?case using Cons.IH(1)[of "min x a"] by simp }
  { case 2 then show ?case using Cons.IH(1)[of "min x a"] Cons.IH(2)[of "min x a"] by auto }
qed

lemma fold_max_ge: "a \<le> fold max xs a" "v \<in> set xs \<Longrightarrow> v \<le> fold max xs a"
  for a :: real
proof (induction xs arbitrary: a)
  case Nil
  { case 1 show ?case by simp }
  { case 2 then show ?case by simp }
next
  case (Cons x xs)
  { case 1 show ?case using Cons.IH(1)[of "max x a"] by simp }
  { case 2 then show ?case using Cons.IH(1)[of "max x a"] Cons.IH(2)[of "max x a"] by auto }
qed

lemma col_min_le: "v \<in> set xs \<Longrightarrow> col_min xs \<le> v"
  by (cases xs) (auto intro: fold_min_le)

lemma col_max_ge: "v \<in> set xs \<Longrightarrow> v \<le> col_max xs"
  by (cases xs) (auto intro: fold_max_ge)

lemma set_observed: "set (observed cells) = {v. Some v \<in> set cells}"
  by (induction cells rule: observed.induct) auto

lemma observed_map_Some [simp]: "observed (map Some vs) = vs"
  by (induction vs) auto

lemma nan_or_in_range_map:
  assumes "\<And>v. Some v \<in> set cells \<Longrightarrow> 0 \<le> f v \<and> f v \<le> 100"
  shows "nan_or_in_range (map (map_option f) cells)"
  unfolding nan_or_in_range_def
proof (intro allI impI)
  fix y assume "Some y \<in> set (map (map_option f) cells)"
  then have "Some y \<in> map_option f ` set cells" by simp
  then obtain c where c: "c \<in> set cells" and y: "Some y = map_option f c" by (rule imageE)
  from y obtain v where v: "c = Some v" "y = f v" by (cases c) auto
  show "0 \<le> y \<and> y \<le> 100" using assms[of v] c v by simp
qed

lemma invert_scale_range: "nan_or_in_range (invert_scale cells)"
  unfolding invert_scale_def
proof (rule nan_or_in_range_map)
  fix v assume "Some v \<in> set cells"
  then have "v \<in> set (observed cells)" by (simp add: set_observed)
  from rank_pct_bounds[OF this]
  show "0 \<le> (1 - rank_pct (observed cells) v) * 100
      \<and> (1 - rank_pct (observed cells) v) * 100 \<le> 100"
    by simp
qed

lemma minmax_scale_range: "nan_or_in_range (minmax_scale cells)"
proof (cases "observed cells \<noteq> [] \<and> col_max (observed cells) > col_min (observed cells)")
  case True
  let ?lo = "col_min (observed cells)" and ?hi = "col_max (observed cells)"
  have "nan_or_in_range (map (map_option (\<lambda>v. ((v - ?lo) / (?hi - ?lo)) * 100)) cells)"
  proof (rule nan_or_in_range_map)
    fix v assume "Some v \<in> set cells"
    then have v: "v \<in> set (observed cells)" by (simp add: set_observed)
    have a: "?lo \<le> v" "v \<le> ?hi" using v col_min_le col_max_ge by auto
    define r where "r = (v - ?lo) / (?hi - ?lo)"
    have "0 \<le> r" unfolding r_def using a True by simp
    moreover have "r \<le> 1" unfolding r_def using a True by simp
    ultimately have "0 \<le> r * 100 \<and> r * 100 \<le> 100" by linarith
    then show "0 \<le> (v - ?lo) / (?hi - ?lo) * 100 \<and> (v - ?lo) / (?hi - ?lo) * 100 \<le> 100"
      unfolding r_def .
  qed
  then show ?thesis using True by (simp add: minmax_scale_def Let_def)
next
  case False
  then show ?thesis by (auto simp: nan_or_in_range_def minmax_scale_def Let_def)
qed

lemma round_half_even_bounds:
  assumes "of_int a \<le> y" "y \<le> of_int b"
  shows "a \<le> round_half_even y" "round_half_even y \<le> b"
proof -
  have f1: "a \<le> \<lfloor>y\<rfloor>" using assms(1) by (simp add: le_floor_iff)
  have f2: "\<lfloor>y\<rfloor> \<le> b" using assms(2) by (simp add: floor_le_iff)
  show "a \<le> round_half_even y" using f1 by (simp add: round_half_even_def Let_def)
  have "y - of_int \<lfloor>y\<rfloor> > 0 \<Longrightarrow> \<lfloor>y\<rfloor> + 1 \<le> b"
  proof -
    assume "y - of_int \<lfloor>y\<rfloor> > 0"
    then have "of_int \<lfloor>y\<rfloor> < y" by simp
    with assms(2) have "of_int \<lfloor>y\<rfloor> < (of_int b :: real)" by linarith
    then show ?thesis by simp
  qed
  then show "round_half_even y \<le> b" using f2 by (auto simp: round_half_even_def Let_def)
qed

lemma round1_range: "0 \<le> x \<Longrightarrow> x \<le> 100 \<Longrightarrow> 0 \<le> round1 x \<and> round1 x \<le> 100"
proof -
  assume a: "0 \<le> x" "x \<le> 100"
  have "of_int 0 \<le> x * 10" "x * 10 \<le> of_int 1000" using a by auto
  from round_half_even_bounds[OF this] have "0 \<le> round_half_even (x * 10)" "round_half_even (x * 10) \<le> 1000" by auto
  then show ?thesis unfolding round1_def by simp
qed

lemma scaled_unknown: "measure_info col = [] \<Longrightarrow> scaled col xs = xs"
  by (simp add: scaled_def)

lemma scaled_known:
  "measure_info col = info # rest \<Longrightarrow>
   scaled col xs = (if fst (snd (snd info)) then invert_scale xs else minmax_scale xs)"
  by (simp add: scaled_def)

lemma height_set_col [simp]: "height (set_col df c vs) = height df"
  by (simp add: set_col_def)

lemma wcols_set_col [simp]: "wcols (set_col df c vs) = (wcols df)(c \<mapsto> vs)"
  by (simp add: set_col_def)

lemma fill_loop_col:
  "distinct cs \<Longrightarrow>
   wcols (fill_loop cs df) c =
     (if c \<in> set cs then map_option (\<lambda>xs. fillna (nan_mean xs) xs) (wcols df c)
      else wcols df c)"
proof (induction cs arbitrary: df)
  case Nil
  show ?case by simp
next
  case (Cons a cs)
  then have d: "distinct cs" and a: "a \<notin> set cs" by auto
  have same: "fillna avg xs = xs" if "None \<notin> set xs" for avg xs
    unfolding fillna_def using that by (intro map_idI) (auto split: option.splits)
  show ?case
  proof (cases "wcols df a")
    case None
    then show ?thesis using Cons.IH[OF d, of df] a by auto
  next
    case (Some xs)
    show ?thesis
    proof (cases "None \<in> set xs")
      case True
      then show ?thesis
        using Cons.IH[OF d, of "set_col df a (fillna (nan_mean xs) xs)"] a Some by auto
    next
      case False
      then show ?thesis using Cons.IH[OF d, of df] a Some same[OF False] by auto
    qed
  qed
qed

lemma fill_loop_height [simp]: "height (fill_loop cs df) = height df"
  by (induction cs arbitrary: df) (auto split: option.splits)

lemma normalize_loop_col:
  "distinct cs \<Longrightarrow>
   wcols (normalize_loop cs df) c =
     (if c \<in> set cs then map_option (scaled c) (wcols df c) else wcols df c)"
proof (induction cs arbitrary: df)
  case Nil
  show ?case by simp
next
  case (Cons a cs)
  then have d: "distinct cs" and a: "a \<notin> set cs" by auto
  show ?case
  proof (cases "measure_info a")
    case Nil
    then show ?thesis using Cons.IH[OF d, of df] a
      by (cases "wcols df a") (auto simp: scaled_unknown)
  next
    case (Cons info rest)
    show ?thesis
    proof (cases "wcols df a")
      case None
      then show ?thesis using Cons.IH[OF d, of df] a Cons
        by auto
    next
      case (Some xs)
      then show ?thesis
        using Cons.IH[OF d, of "set_col df a (if fst (snd (snd info)) then invert_scale xs else minmax_scale xs)"] a Cons
        by (auto simp: scaled_known)
    qed
  qed
qed

lemma normalize_loop_height [simp]: "height (normalize_loop cs df) = height df"
  by (induction cs arbitrary: df) (auto split: list.splits option.splits)

lemma round_loop_col:
  "distinct cs \<Longrightarrow>
   wcols (round_loop cs df) c =
     (if c \<in> set cs then map_option (map (map_option round1)) (wcols df c) else wcols df c)"
proof (induction cs arbitrary: df)
  case Nil
  show ?case by simp
next
  case (Cons a cs)
  then have d: "distinct cs" and a: "a \<notin> set cs" by auto
  show ?case
  proof (cases "wcols df a")
    case None
    then show ?thesis using Cons.IH[OF d, of df] a by auto
  next
    case (Some xs)
    then show ?thesis
      using Cons.IH[OF d, of "set_col df a (map (map_option round1) xs)"] a by auto
  qed
qed

lemma round_loop_height [simp]: "height (round_loop cs df) = height df"
  by (induction cs arbitrary: df) (auto split: option.splits)

lemma distinct_short_names: "distinct (map (\<lambda>info. fst (snd info)) key_measures)"
  by (simp add: key_measures_def)

lemma distinct_dimension_cols: "distinct (dimension_cols df)"
  unfolding dimension_cols_def by (rule distinct_filter[OF distinct_short_names])

lemma normalized_col:
  "wcols (normalized df) c =
     (if c \<in> set (dimension_cols df)
      then map_option (\<lambda>xs. map (map_option round1) (scaled c xs)) (wcols df c)
      else wcols df c)"
  unfolding normalized_def
  by (simp add: round_loop_col[OF distinct_dimension_cols]
        normalize_loop_col[OF distinct_dimension_cols] option.map_comp comp_def)

lemma normalized_height [simp]: "height (normalized df) = height df"
  by (simp add: normalized_def)

lemma dimension_cols_present: "c \<in> set (dimension_cols df) \<Longrightarrow> wcols df c \<noteq> None"
  by (simp add: dimension_cols_def)

lemma dimension_cols_known: "c \<in> set (dimension_cols df) \<Longrightarrow> measure_info c \<noteq> []"
  by (auto simp: dimension_cols_def measure_info_def filter_empty_conv)

lemma length_scaled [simp]: "length (scaled c xs) = length xs"
  by (simp add: scaled_def invert_scale_def minmax_scale_def Let_def split: list.splits)

lemma scaled_range: "measure_info c \<noteq> [] \<Longrightarrow> nan_or_in_range (scaled c xs)"
  by (auto simp: scaled_def invert_scale_range minmax_scale_range split: list.splits)

lemma nan_or_in_range_round:
  "nan_or_in_range xs \<Longrightarrow> nan_or_in_range (map (map_option round1) xs)"
  by (rule nan_or_in_range_map) (simp add: nan_or_in_range_def round1_range)

lemma normalized_dimension_col:
  assumes "c \<in> set (dimension_cols df)"
  obtains xs where "wcols df c = Some xs"
    and "wcols (normalized df) c = Some (map (map_option round1) (scaled c xs))"
    and "nan_or_in_range (map (map_option round1) (scaled c xs))"
proof -
  from dimension_cols_present[OF assms] obtain xs where xs: "wcols df c = Some xs" by auto
  have "wcols (normalized df) c = Some (map (map_option round1) (scaled c xs))"
    using assms xs by (simp add: normalized_col)
  moreover have "nan_or_in_range (map (map_option round1) (scaled c xs))"
    by (rule nan_or_in_range_round[OF scaled_range[OF dimension_cols_known[OF assms]]])
  ultimately show ?thesis using xs that by blast
qed

lemma sum_list_range:
  "(\<forall>v\<in>set vs. 0 \<le> v \<and> v \<le> (100::real)) \<Longrightarrow>
   0 \<le> sum_list vs \<and> sum_list vs \<le> 100 * real (length vs)"
  by (induction vs) (auto simp: algebra_simps)

lemma nan_mean_range:
  assumes "nan_or_in_range cells" and "nan_mean cells = Some m"
  shows "0 \<le> m \<and> m \<le> 100"
proof -
  let ?vs = "observed cells"
  have ne: "?vs \<noteq> []" and m: "m = sum_list ?vs / real (length ?vs)"
    using assms(2) by (auto simp: nan_mean_def split: list.splits)
  have n: "0 < real (length ?vs)" using ne by simp
  have "\<forall>v\<in>set ?vs. 0 \<le> v \<and> v \<le> 100"
    using assms(1) by (simp add: set_observed nan_or_in_range_def)
  from sum_list_range[OF this] have s: "0 \<le> sum_list ?vs" "sum_list ?vs \<le> 100 * real (length ?vs)"
    by auto
  have "0 \<le> sum_list ?vs / real (length ?vs)" using s(1) n by simp
  moreover have "sum_list ?vs / real (length ?vs) \<le> 100" using s(2) n by (simp add: pos_divide_le_eq)
  ultimately show ?thesis unfolding m by simp
qed

text \<open>
  Whatever the frame, every cell of a normalised dimension column is NaN or a number between
  0 and 100, and so is every composite index: NaN is the only way out of the range.
\<close>

lemma normalized_nan_or_in_range:
  assumes wf: "wellformed df"
  shows "\<forall>c\<in>set (dimension_cols df). \<exists>ys. wcols (normalized df) c = Some ys
            \<and> length ys = height df \<and> nan_or_in_range ys"
    and "nan_or_in_range (composite_index (normalized df) (dimension_cols df))"
proof -
  have cols: "\<exists>ys. wcols (normalized df) c = Some ys \<and> length ys = height df \<and> nan_or_in_range ys"
    if c: "c \<in> set (dimension_cols df)" for c
  proof -
    from normalized_dimension_col[OF c] obtain xs where
      xs: "wcols df c = Some xs"
      and n: "wcols (normalized df) c = Some (map (map_option round1) (scaled c xs))"
      and r: "nan_or_in_range (map (map_option round1) (scaled c xs))" by blast
    have "length xs = height df" using wf xs by (simp add: wellformed_def)
    then show ?thesis using n r by simp
  qed
  then show "\<forall>c\<in>set (dimension_cols df). \<exists>ys. wcols (normalized df) c = Some ys
            \<and> length ys = height df \<and> nan_or_in_range ys" by blast
  show "nan_or_in_range (composite_index (normalized df) (dimension_cols df))"
    unfolding nan_or_in_range_def
  proof (intro allI impI)
    fix v assume "Some v \<in> set (composite_index (normalized df) (dimension_cols df))"
    then obtain i where i: "i < height df"
      and vi: "Some v = map_option round1 (row_mean (normalized df) (dimension_cols df) i)"
      by (auto simp: composite_index_def)
    then obtain m where m: "row_mean (normalized df) (dimension_cols df) i = Some m"
      and v: "v = round1 m" by (cases "row_mean (normalized df) (dimension_cols df) i") auto
    have "nan_or_in_range (map (\<lambda>c. cell (normalized df) c i) (dimension_cols df))"
      unfolding nan_or_in_range_def
    proof (intro allI impI)
      fix w assume "Some w \<in> set (map (\<lambda>c. cell (normalized df) c i) (dimension_cols df))"
      then obtain c where c: "c \<in> set (dimension_cols df)" and w: "cell (normalized df) c i = Some w"
        by auto
      from cols[OF c] obtain ys where ys: "wcols (normalized df) c = Some ys"
        "length ys = height df" "nan_or_in_range ys" by blast
      then have "Some w \<in> set ys" using i w by (auto simp: cell_def in_set_conv_nth)
      then show "0 \<le> w \<and> w \<le> 100" using ys(3) by (simp add: nan_or_in_range_def)
    qed
    from nan_mean_range[OF this] m have "0 \<le> m \<and> m \<le> 100" by (simp add: row_mean_def)
    then show "0 \<le> v \<and> v \<le> 100" unfolding v using round1_range by blast
  qed
qed

lemma measure_info_safety:
  "measure_info ''safety'' = [(''Homicides'', ''safety'', True, ''Homicide rate per 100k'')]"
  by (simp add: measure_info_def key_measures_def)

lemma measure_info_health:
  "measure_info ''health'' = [(''Life expectancy at birth'', ''health'', False, ''Years of life expectancy'')]"
  by (simp add: measure_info_def key_measures_def)

lemma measure_info_income:
  "measure_info ''income'' =
     [(''Households and NPISHs net adjusted disposable income per capita'', ''income'', False,
       ''Household income'')]"
  by (simp add: measure_info_def key_measures_def)

lemma dimension_cols_sparse_wide: "dimension_cols sparse_wide = [''health'', ''income'', ''safety'']"
  by (simp add: dimension_cols_def sparse_wide_def key_measures_def)

lemma drop_sparse_wide:
  "drop_sparse sparse_wide [''health'', ''income'', ''safety''] =
     \<lparr>height = 2,
      wcols = [''health'' \<mapsto> [Some 82, Some 78], ''income'' \<mapsto> [Some 30, Some 20],
               ''safety'' \<mapsto> [None, None]]\<rparr>"
  by (simp add: drop_sparse_def missing_pct_def cell_def sparse_wide_def select_rows_def
        upt_conv_Cons Let_def fun_eq_iff)

lemma prepared_sparse_wide:
  "prepared sparse_wide =
     \<lparr>height = 2,
      wcols = [''health'' \<mapsto> [Some 82, Some 78], ''income'' \<mapsto> [Some 30, Some 20],
               ''safety'' \<mapsto> [None, None]]\<rparr>"
  unfolding prepared_def dimension_cols_sparse_wide drop_sparse_wide
  by (simp add: set_col_def fillna_def nan_mean_def fun_eq_iff)

lemma dimension_cols_prepared_sparse:
  "dimension_cols \<lparr>height = 2,
      wcols = [''health'' \<mapsto> [Some 82, Some 78], ''income'' \<mapsto> [Some 30, Some 20],
               ''safety'' \<mapsto> [None, None]]\<rparr> = [''health'', ''income'', ''safety'']"
  by (simp add: dimension_cols_def key_measures_def)

text \<open>
  C1. The claim puts every normalised value of every surviving country in [0,100]. In the
  three-country table the third country is dropped (two of its three cells are missing) and
  takes the only homicide rate with it: the safety column of the two survivors has no
  number, its mean is NaN, the fill leaves it NaN, and the inverted normalisation keeps it
  NaN. Health, income and the composite index are in range.
\<close>

theorem all_missing_inverted_column_stays_nan:
  "dimension_cols sparse_wide = [''health'', ''income'', ''safety'']
   \<and> height (fst (transform sparse_wide)) = 2
   \<and> wcols (fst (transform sparse_wide)) ''safety'' = Some [None, None]
   \<and> wcols (fst (transform sparse_wide)) ''health'' = Some [Some 100, Some 0]
   \<and> wcols (fst (transform sparse_wide)) ''income'' = Some [Some 100, Some 0]
   \<and> snd (transform sparse_wide) = [Some 100, Some 0]"
  unfolding transform_def prepared_sparse_wide Let_def fst_conv snd_conv
    dimension_cols_sparse_wide
  by (simp add: normalized_col dimension_cols_prepared_sparse composite_index_def row_mean_def
        cell_def nan_mean_def upt_conv_Cons)
     (simp add: scaled_known[OF measure_info_safety] scaled_known[OF measure_info_health]
        scaled_known[OF measure_info_income] invert_scale_def minmax_scale_def rank_pct_def
        rank_average_def round1_def round_half_even_def Let_def)

lemma dimension_cols_demo_wide: "dimension_cols demo_wide = [''health'', ''safety'']"
  by (simp add: dimension_cols_def demo_wide_def key_measures_def)

text \<open>
  C2. The claim gives the country with the lowest raw value of an inverted dimension exactly
  100. In the four-country table the first country has the lowest homicide rate and its
  safety score is 75.0: the percentile rank of the lowest value is 1/n, never 0.
\<close>

theorem lowest_homicides_not_100:
  "wcols (normalized demo_wide) ''safety'' = Some [Some 75, Some 50, Some 25, Some 0]"
  by (simp add: normalized_col dimension_cols_demo_wide)
     (simp add: demo_wide_def scaled_known[OF measure_info_safety] invert_scale_def rank_pct_def
        rank_average_def round1_def round_half_even_def Let_def)

lemma fold_min_in: "fold min xs a \<in> insert a (set xs)" for a :: real
  by (induction xs arbitrary: a) (auto simp: min_def)

lemma fold_max_in: "fold max xs a \<in> insert a (set xs)" for a :: real
  by (induction xs arbitrary: a) (auto simp: max_def)

lemma minmax_scale_constant:
  assumes "\<forall>v\<in>set vs. v = a"
  shows "minmax_scale (map Some vs) = map (\<lambda>v. Some 50) vs"
proof (cases vs)
  case Nil
  then show ?thesis by (simp add: minmax_scale_def)
next
  case (Cons x rest)
  have "col_min vs \<in> set vs" using Cons fold_min_in[of rest x] by auto
  then have lo: "col_min vs = a" using assms by blast
  have "col_max vs \<in> set vs" using Cons fold_max_in[of rest x] by auto
  then have hi: "col_max vs = a" using assms by blast
  show ?thesis by (simp add: minmax_scale_def lo hi comp_def)
qed

lemma filter_constant:
  fixes a :: real
  assumes "\<forall>v\<in>set xs. v = a"
  shows "filter (\<lambda>x. x < a) xs = []" and "filter (\<lambda>x. x = a) xs = xs"
  using assms by (induction xs) auto

lemma invert_scale_constant:
  assumes "\<forall>v\<in>set vs. v = a"
  shows "invert_scale (map Some vs) = map (\<lambda>v. Some (50 - 50 / real (length vs))) vs"
proof -
  have "(1 - rank_pct vs v) * 100 = 50 - 50 / real (length vs)" if "v \<in> set vs" for v
  proof -
    have v: "v = a" using that assms by simp
    have n: "real (length vs) \<noteq> 0" using that by (cases vs) auto
    have "rank_average vs v = (real (length vs) + 1) / 2"
      unfolding v rank_average_def by (simp add: filter_constant[OF assms])
    then show ?thesis using n by (simp add: rank_pct_def field_simps)
  qed
  then show ?thesis by (simp add: invert_scale_def comp_def)
qed

lemma round1_50: "round1 50 = 50"
  by (simp add: round1_def round_half_even_def Let_def)

lemma inverts_known:
  "scaled col xs = (if measure_info col = [] then xs
                    else if inverts col then invert_scale xs else minmax_scale xs)"
  by (simp add: scaled_def inverts_def split: list.splits)

text \<open>
  What the normalisation makes of a column that holds one number in every row: 50.0 in the
  min-max branch, and \<open>50 - 50/n\<close> (rounded) in the percentile-rank branch, which ranks the
  whole tie group at \<open>(n + 1) / 2\<close>.
\<close>

lemma constant_column_normalized:
  assumes "c \<in> set (dimension_cols df)" and "wcols df c = Some (map Some vs)"
    and "\<forall>v\<in>set vs. v = a"
  shows "wcols (normalized df) c =
           Some (map (\<lambda>v. Some (if inverts c then round1 (50 - 50 / real (length vs)) else 50)) vs)"
proof -
  have k: "measure_info c \<noteq> []" by (rule dimension_cols_known[OF assms(1)])
  have "map (map_option round1) (scaled c (map Some vs)) =
          map (\<lambda>v. Some (if inverts c then round1 (50 - 50 / real (length vs)) else 50)) vs"
    using k by (simp add: inverts_known invert_scale_constant[OF assms(3)]
          minmax_scale_constant[OF assms(3)] round1_50 comp_def)
  then show ?thesis using assms(1,2) by (simp add: normalized_col)
qed

lemma dimension_cols_constant_wide: "dimension_cols constant_wide = [''health'', ''safety'']"
  by (simp add: dimension_cols_def constant_wide_def key_measures_def)

text \<open>
  C3. The claim gives every country 50.0 on a constant column, inverted or not. In the
  two-country table both columns are constant (max = min): health, which is not inverted,
  is normalised to 50.0, and safety, which is inverted, to 25.0.
\<close>

theorem constant_inverted_column_not_50:
  "wcols constant_wide ''safety'' = Some [Some (6 / 5), Some (6 / 5)]
   \<and> col_max (observed [Some (6 / 5), Some (6 / 5)]) = col_min (observed [Some (6 / 5), Some (6 / 5)])
   \<and> inverts ''safety'' \<and> \<not> inverts ''health''
   \<and> wcols (normalized constant_wide) ''safety'' = Some [Some 25, Some 25]
   \<and> wcols (normalized constant_wide) ''health'' = Some [Some 50, Some 50]"
  by (simp add: normalized_col dimension_cols_constant_wide inverts_def measure_info_safety
        measure_info_health)
     (simp add: constant_wide_def scaled_known[OF measure_info_safety]
        scaled_known[OF measure_info_health] invert_scale_def minmax_scale_def rank_pct_def
        rank_average_def round1_def round_half_even_def Let_def)

section \<open>Properties of simulation mode (a)\<close>

lemma bind_err_Inr [simp]: "bind_err (Inr v) f = f v"
  by (simp add: bind_err_def)

lemma bind_err_Inl [simp]: "bind_err (Inl e) f = Inl e"
  by (simp add: bind_err_def)

lemma numeric_with_col [simp]:
  "numeric (with_col df name xs) = (numeric df)(name \<mapsto> xs)"
  by (simp add: with_col_def)

lemma country_with_col [simp]: "country (with_col df name xs) = country df"
  by (simp add: with_col_def)

lemma len_with_col [simp]: "len (with_col df name xs) = len df"
  by (simp add: len_def)

lemma getitem_numeric:
  "numeric df c = Some xs \<Longrightarrow> c \<noteq> ''country'' \<Longrightarrow> c \<noteq> ''country_code'' \<Longrightarrow>
   getitem df (PStr c) = Inr (NumCol xs)"
  by (simp add: getitem_def)

lemma boosted_numeric:
  "numeric df c = Some xs \<Longrightarrow> c \<noteq> ''country'' \<Longrightarrow> c \<noteq> ''country_code'' \<Longrightarrow>
   boosted df c (PNum b) = Inr (map (\<lambda>v. v * (1 + b / 100)) xs)"
  by (simp add: boosted_def getitem_numeric as_number_def as_numeric_def)

lemma weighted_numeric:
  "numeric df c = Some xs \<Longrightarrow> c \<noteq> ''country'' \<Longrightarrow> c \<noteq> ''country_code'' \<Longrightarrow>
   weighted df c k = Inr (map (\<lambda>v. v * weight k) xs)"
  by (simp add: weighted_def getitem_numeric as_numeric_def)

lemma weight_values:
  "weight ''environment'' = 0.15" "weight ''education'' = 0.15" "weight ''jobs'' = 0.20"
  "weight ''safety'' = 0.10" "weight ''income'' = 0.10" "weight ''housing'' = 0.10"
  "weight ''health'' = 0.10" "weight ''work_life_balance'' = 0.05"
  "weight ''social_connections'' = 0.05"
  by (simp_all add: weight_def weights_def)

lemma length_col_add [simp]: "length (col_add xs ys) = min (length xs) (length ys)"
  by (simp add: col_add_def)

lemma nth_col_add:
  "i < length xs \<Longrightarrow> i < length ys \<Longrightarrow> col_add xs ys ! i = xs ! i + ys ! i"
  by (simp add: col_add_def)

lemma cap100_simulated:
  "cap100 (map (\<lambda>v. v * (1 + b / 100)) xs) = map (\<lambda>v. simulated v b) xs"
  by (simp add: cap100_def simulated_def)

lemma life_satisfaction_sim_result:
  assumes "numeric df ''environment_sim'' = Some env" "numeric df ''education_sim'' = Some edu"
    "numeric df ''jobs_sim'' = Some jobs" "numeric df ''safety'' = Some saf"
    "numeric df ''income'' = Some inc" "numeric df ''housing'' = Some hou"
    "numeric df ''health'' = Some hea" "numeric df ''work_life_balance'' = Some wlb"
    "numeric df ''social_connections'' = Some soc"
  shows "life_satisfaction_sim df = Inr (proxy env edu jobs saf inc hou hea wlb soc)"
  unfolding life_satisfaction_sim_def proxy_def
  by (simp add: weighted_numeric[OF assms(1)] weighted_numeric[OF assms(2)]
      weighted_numeric[OF assms(3)] weighted_numeric[OF assms(4)] weighted_numeric[OF assms(5)]
      weighted_numeric[OF assms(6)] weighted_numeric[OF assms(7)] weighted_numeric[OF assms(8)]
      weighted_numeric[OF assms(9)])

lemma sim_frame_result:
  assumes "numeric df ''environment'' = Some env" "numeric df ''education'' = Some edu"
    "numeric df ''jobs'' = Some jobs" "numeric df ''safety'' = Some saf"
    "numeric df ''income'' = Some inc" "numeric df ''housing'' = Some hou"
    "numeric df ''health'' = Some hea" "numeric df ''work_life_balance'' = Some wlb"
    "numeric df ''social_connections'' = Some soc"
  shows "sim_frame df (PNum e) (PNum d) (PNum j) =
    Inr (with_col (with_col (with_col (with_col df
           ''environment_sim'' (map (\<lambda>v. simulated v e) env))
           ''education_sim'' (map (\<lambda>v. simulated v d) edu))
           ''jobs_sim'' (map (\<lambda>v. simulated v j) jobs))
           ''life_satisfaction_sim''
           (proxy (map (\<lambda>v. simulated v e) env) (map (\<lambda>v. simulated v d) edu)
              (map (\<lambda>v. simulated v j) jobs) saf inc hou hea wlb soc))"
proof -
  let ?E = "map (\<lambda>v. simulated v e) env" and ?D = "map (\<lambda>v. simulated v d) edu"
    and ?J = "map (\<lambda>v. simulated v j) jobs"
  let ?df = "with_col (with_col (with_col df ''environment_sim'' ?E) ''education_sim'' ?D) ''jobs_sim'' ?J"
  have b1: "boosted df ''environment'' (PNum e) = Inr (map (\<lambda>v. v * (1 + e / 100)) env)"
    by (rule boosted_numeric[OF assms(1)]) simp_all
  have b2: "boosted (with_col df ''environment_sim'' xs) ''education'' (PNum d)
      = Inr (map (\<lambda>v. v * (1 + d / 100)) edu)" for xs
    by (rule boosted_numeric) (simp_all add: assms(2))
  have b3: "boosted (with_col (with_col df ''environment_sim'' xs) ''education_sim'' ys) ''jobs'' (PNum j)
      = Inr (map (\<lambda>v. v * (1 + j / 100)) jobs)" for xs ys
    by (rule boosted_numeric) (simp_all add: assms(3))
  have ls: "life_satisfaction_sim ?df = Inr (proxy ?E ?D ?J saf inc hou hea wlb soc)"
    by (rule life_satisfaction_sim_result) (simp_all add: assms)
  show ?thesis
    unfolding sim_frame_def by (simp add: b1 b2 b3 cap100_simulated ls Let_def)
qed

lemma nth_proxy:
  assumes "i < n" "length env = n" "length edu = n" "length jobs = n" "length saf = n"
    "length inc = n" "length hou = n" "length hea = n" "length wlb = n" "length soc = n"
  shows "proxy env edu jobs saf inc hou hea wlb soc ! i =
     env ! i * 0.15 + edu ! i * 0.15 + jobs ! i * 0.20 + saf ! i * 0.10 + inc ! i * 0.10
     + hou ! i * 0.10 + hea ! i * 0.10 + wlb ! i * 0.05 + soc ! i * 0.05"
  using assms unfolding proxy_def by (simp add: nth_col_add weight_values)

lemma length_proxy:
  assumes "length env = n" "length edu = n" "length jobs = n" "length saf = n"
    "length inc = n" "length hou = n" "length hea = n" "length wlb = n" "length soc = n"
  shows "length (proxy env edu jobs saf inc hou hea wlb soc) = n"
  using assms unfolding proxy_def by simp

lemma base_columnsD:
  assumes "base_columns df [env, edu, jobs, saf, inc, hou, hea, wlb, soc]"
  shows "numeric df ''environment'' = Some env" "numeric df ''education'' = Some edu"
    "numeric df ''jobs'' = Some jobs" "numeric df ''safety'' = Some saf"
    "numeric df ''income'' = Some inc" "numeric df ''housing'' = Some hou"
    "numeric df ''health'' = Some hea" "numeric df ''work_life_balance'' = Some wlb"
    "numeric df ''social_connections'' = Some soc"
  using assms by (simp_all add: base_columns_def)

lemma frame_ok_length: "frame_ok df \<Longrightarrow> numeric df c = Some xs \<Longrightarrow> length xs = len df"
  by (simp add: frame_ok_def)

lemma simulated_le: "simulated raw boost \<le> 100"
  by (simp add: simulated_def)

text \<open>
  C4. In mode (a), on a table with the nine base columns, the simulation succeeds for any
  numeric boosts; each boosted dimension (environment, education, jobs) is simulated as
  \<open>min (raw * (1 + boost/100)) 100\<close>, which never exceeds 100; every column other than the
  four simulated ones is unchanged; and the life-satisfaction proxy of every row is the
  weighted sum with weights 0.15, 0.15, 0.20, 0.10, 0.10, 0.10, 0.10, 0.05, 0.05 over
  environment, education, jobs (simulated), safety, income, housing, health,
  work_life_balance and social_connections.
\<close>

theorem mode_a_simulation:
  assumes cols: "base_columns df [env, edu, jobs, saf, inc, hou, hea, wlb, soc]"
    and ok: "frame_ok df"
  shows "\<exists>df_sim ls.
      sim_frame df (PNum e) (PNum d) (PNum j) = Inr df_sim
    \<and> numeric df_sim ''environment_sim'' = Some (map (\<lambda>raw. min (raw * (1 + e / 100)) 100) env)
    \<and> numeric df_sim ''education_sim'' = Some (map (\<lambda>raw. min (raw * (1 + d / 100)) 100) edu)
    \<and> numeric df_sim ''jobs_sim'' = Some (map (\<lambda>raw. min (raw * (1 + j / 100)) 100) jobs)
    \<and> (\<forall>i<len df. simulated (env ! i) e \<le> 100 \<and> simulated (edu ! i) d \<le> 100
          \<and> simulated (jobs ! i) j \<le> 100)
    \<and> (\<forall>c. c \<notin> set sim_names \<longrightarrow> numeric df_sim c = numeric df c)
    \<and> numeric df_sim ''life_satisfaction_sim'' = Some ls \<and> length ls = len df
    \<and> (\<forall>i<len df. ls ! i =
          simulated (env ! i) e * 0.15 + simulated (edu ! i) d * 0.15
          + simulated (jobs ! i) j * 0.20 + saf ! i * 0.10 + inc ! i * 0.10 + hou ! i * 0.10
          + hea ! i * 0.10 + wlb ! i * 0.05 + soc ! i * 0.05)"
proof -
  note c = base_columnsD[OF cols]
  let ?E = "map (\<lambda>v. simulated v e) env" and ?D = "map (\<lambda>v. simulated v d) edu"
    and ?J = "map (\<lambda>v. simulated v j) jobs"
  let ?ls = "proxy ?E ?D ?J saf inc hou hea wlb soc"
  let ?df = "with_col (with_col (with_col (with_col df ''environment_sim'' ?E)
      ''education_sim'' ?D) ''jobs_sim'' ?J) ''life_satisfaction_sim'' ?ls"
  have r: "sim_frame df (PNum e) (PNum d) (PNum j) = Inr ?df"
    by (rule sim_frame_result[OF c])
  have n: "length env = len df" "length edu = len df" "length jobs = len df"
    "length saf = len df" "length inc = len df" "length hou = len df" "length hea = len df"
    "length wlb = len df" "length soc = len df"
    using c ok by (simp_all add: frame_ok_length)
  have l: "length ?ls = len df"
    by (rule length_proxy) (simp_all add: n)
  have p: "?ls ! i =
          simulated (env ! i) e * 0.15 + simulated (edu ! i) d * 0.15
          + simulated (jobs ! i) j * 0.20 + saf ! i * 0.10 + inc ! i * 0.10 + hou ! i * 0.10
          + hea ! i * 0.10 + wlb ! i * 0.05 + soc ! i * 0.05" if "i < len df" for i
    using nth_proxy[of i "len df" ?E ?D ?J saf inc hou hea wlb soc] that n by simp
  have u: "\<forall>c. c \<notin> set sim_names \<longrightarrow> numeric ?df c = numeric df c"
    by (simp add: sim_names_def)
  have e1: "numeric ?df ''environment_sim'' = Some (map (\<lambda>raw. min (raw * (1 + e / 100)) 100) env)"
    and e2: "numeric ?df ''education_sim'' = Some (map (\<lambda>raw. min (raw * (1 + d / 100)) 100) edu)"
    and e3: "numeric ?df ''jobs_sim'' = Some (map (\<lambda>raw. min (raw * (1 + j / 100)) 100) jobs)"
    and e4: "numeric ?df ''life_satisfaction_sim'' = Some ?ls"
    by (simp_all add: simulated_def)
  show ?thesis
    using r e1 e2 e3 e4 l p u simulated_le by blast
qed

lemma frame_ok_demo_table: "frame_ok demo_table"
  by (auto simp: frame_ok_def demo_table_def len_def split: if_splits)

lemma base_columns_demo_table:
  "base_columns demo_table
     [[80, 70, 20], [90, 80, 10], [70, 75, 30], [75, 50, 0], [60, 70, 5], [50, 25, 75],
      [85, 80, 10], [60, 90, 0], [95, 85, 0]]"
  by (simp add: base_columns_def demo_table_def)

text \<open>C4 on the three-country table with boosts 50, 0 and 10 percent.\<close>

theorem mode_a_simulation_witness:
  "base_columns demo_table
     [[80, 70, 20], [90, 80, 10], [70, 75, 30], [75, 50, 0], [60, 70, 5], [50, 25, 75],
      [85, 80, 10], [60, 90, 0], [95, 85, 0]]
   \<and> frame_ok demo_table
   \<and> (\<exists>df_sim ls. sim_frame demo_table (PNum 50) (PNum 0) (PNum 10) = Inr df_sim
        \<and> numeric df_sim ''environment_sim'' = Some [100, 100, 30]
        \<and> numeric df_sim ''education_sim'' = Some [90, 80, 10]
        \<and> numeric df_sim ''jobs_sim'' = Some [77, 82.5, 33]
        \<and> numeric df_sim ''safety'' = Some [75, 50, 0]
        \<and> numeric df_sim ''life_satisfaction_sim'' = Some ls \<and> length ls = 3
        \<and> ls ! 0 = 78.65)"
proof -
  have three: "len demo_table = 3" by (simp add: len_def demo_table_def)
  from mode_a_simulation[OF base_columns_demo_table frame_ok_demo_table, of 50 0 10]
  obtain df_sim ls where
    r: "sim_frame demo_table (PNum 50) (PNum 0) (PNum 10) = Inr df_sim"
    and a: "numeric df_sim ''environment_sim'' = Some [100, 100, 30]"
    and b: "numeric df_sim ''education_sim'' = Some [90, 80, 10]"
    and c: "numeric df_sim ''jobs_sim'' = Some [77, 82.5, 33]"
    and u: "\<forall>c. c \<notin> set sim_names \<longrightarrow> numeric df_sim c = numeric demo_table c"
    and l: "numeric df_sim ''life_satisfaction_sim'' = Some ls" "length ls = 3"
    and p: "ls ! 0 = 78.65"
    unfolding three by (auto simp: simulated_def)
  have "numeric df_sim ''safety'' = Some [75, 50, 0]"
    using u by (simp add: sim_names_def demo_table_def)
  then show ?thesis
    using base_columns_demo_table frame_ok_demo_table r a b c l p by blast
qed






section \<open>Properties of zero inputs and of simulation mode (b)\<close>

lemma selected_zero: "zero_boost (kw k) \<Longrightarrow> or_default (kwargs_get kw k (PNum 0)) (PNum 0) = PNum 0"
  by (auto simp: zero_boost_def or_default_def kwargs_get_def)

lemma positive_zero [simp]: "\<not> positive (PNum 0)"
  by (simp add: positive_def)

lemma dimension_sim_numeric:
  assumes "numeric df dname = Some xs" "dname \<noteq> ''country''" "dname \<noteq> ''country_code''"
  shows "\<exists>ys. dimension_sim
           (with_col (with_col (with_col (with_col df ''environment_sim'' a) ''education_sim'' b)
              ''jobs_sim'' c) ''life_satisfaction_sim'' l) (PStr dname) = Inr (NumCol ys)"
  using assms by (simp add: dimension_sim_def getitem_def)

lemma getitem_with_col_other:
  "getitem (with_col df name xs) (PStr name) = Inr (NumCol xs)"
  if "name \<noteq> ''country''" "name \<noteq> ''country_code''"
  using that by (simp add: getitem_def)

lemma policy_logic_zero:
  assumes cols: "base_columns df [env, edu, jobs, saf, inc, hou, hea, wlb, soc]"
    and rows: "len df \<noteq> 0"
    and ls: "numeric df ''life_satisfaction'' = Some ls"
    and dim: "selected kw policy_dimension_id dimension_default = PStr dname"
    and xs: "numeric df dname = Some xs" "dname \<noteq> ''country''" "dname \<noteq> ''country_code''"
    and zero: "zero_boost (kw environment_slider_id)" "zero_boost (kw education_slider_id)"
      "zero_boost (kw jobs_slider_id)"
  shows "policy_update_logic df kw =
    Inr \<lparr>traces = [Scatter ''Current Position'' (NumCol xs) (NumCol ls) (country df)
                      (hovertemplate ''<b>%{text}</b><br>'' (py_title (replace_underscore dname))
                         plain_tail)],
         annotations = [],
         xaxis_title = py_title (replace_underscore dname),
         yaxis_title = ''Life Satisfaction''\<rparr>"
proof -
  note c = base_columnsD[OF cols]
  note r = sim_frame_result[OF c, of 0 0 0]
  from dimension_sim_numeric[OF xs] obtain ys where
    ys: "dimension_sim
           (with_col (with_col (with_col (with_col df ''environment_sim''
              (map (\<lambda>v. simulated v 0) env)) ''education_sim'' (map (\<lambda>v. simulated v 0) edu))
              ''jobs_sim'' (map (\<lambda>v. simulated v 0) jobs)) ''life_satisfaction_sim''
              (proxy (map (\<lambda>v. simulated v 0) env) (map (\<lambda>v. simulated v 0) edu)
                 (map (\<lambda>v. simulated v 0) jobs) saf inc hou hea wlb soc)) (PStr dname)
         = Inr (NumCol ys)" by blast
  have d: "or_default (kwargs_get kw policy_dimension_id dimension_default) dimension_default
      = PStr dname" using dim by (simp add: selected_def)
  show ?thesis
    unfolding policy_update_logic_def
    by (simp add: rows d selected_zero[of kw environment_slider_id, OF zero(1)]
          selected_zero[of kw education_slider_id, OF zero(2)]
          selected_zero[of kw jobs_slider_id, OF zero(3)] r ys getitem_numeric[OF xs] getitem_numeric[OF ls]
          dimension_title_def as_numeric_def getitem_with_col_other Let_def)
qed

lemma rows_where_Cons:
  assumes "rows_where df p = i # rest"
  shows "len df \<noteq> 0" and "i < len df" and "p (country df ! i)"
proof -
  have "i \<in> set (rows_where df p)" using assms by simp
  then show "i < len df" and "p (country df ! i)" by (auto simp: rows_where_def)
  then show "len df \<noteq> 0" by simp
qed

lemma simulator_update_result:
  assumes country: "selected kw sim_country_id (PStr ''United States'') = PStr name"
    and row: "rows_where df (\<lambda>c. c = name) = i # rest"
    and ls: "numeric df ''life_satisfaction'' = Some ls"
    and dim: "selected kw sim_dimension_id (PStr ''environment'') = PStr dname"
    and xs: "numeric df dname = Some xs" "dname \<noteq> ''country''" "dname \<noteq> ''country_code''"
    and imp: "selected kw sim_improvement_id (PNum 10) = PNum imp"
  shows "\<exists>fig ins others.
      simulator_update df kw = Inr ((fig, Insight ins, NoError), [])
    \<and> traces fig = others @
         [current_point name dname (xs ! i) (ls ! i),
          simulated_point name dname (xs ! i + imp)
            (map_option (\<lambda>c. ls ! i + imp * c * 0.3) (corr ls xs))]
    \<and> annotations fig =
         [Arrow (xs ! i + imp) (map_option (\<lambda>c. ls ! i + imp * c * 0.3) (corr ls xs))
            (xs ! i) (ls ! i)]
    \<and> ins_current_dimension_val ins = xs ! i \<and> ins_new_dimension_val ins = xs ! i + imp
    \<and> ins_current_life_sat ins = ls ! i
    \<and> ins_estimated_increase ins = map_option (\<lambda>c. imp * c * 0.3) (corr ls xs)
    \<and> ins_new_life_sat ins = map_option (\<lambda>c. ls ! i + imp * c * 0.3) (corr ls xs)"
proof -
  have s: "or_default (kwargs_get kw sim_country_id (PStr ''United States'')) (PStr ''United States'')
      = PStr name"
    "or_default (kwargs_get kw sim_dimension_id (PStr ''environment'')) (PStr ''environment'')
      = PStr dname"
    "or_default (kwargs_get kw sim_improvement_id (PNum 10)) (PNum 10) = PNum imp"
    using country dim imp by (simp_all add: selected_def)
  have l: "simulator_update_logic df kw = simulate df name i (PStr dname) (PNum imp)"
    unfolding simulator_update_logic_def
    by (simp add: rows_where_Cons(1)[OF row] s row Let_def)
  show ?thesis
    unfolding simulator_update_def l simulate_def
    by (simp add: getitem_numeric[OF ls] getitem_numeric[OF xs] as_numeric_def as_number_def
          dimension_title_def Let_def option.map_comp comp_def simulated_point_def
          current_point_def)
qed






lemma len_demo_table: "len demo_table = 3"
  by (simp add: len_def demo_table_def)

lemma rows_finland: "rows_where demo_table (\<lambda>c. c = ''Finland'') = [0]"
  by (simp add: rows_where_def len_demo_table upt_conv_Cons) (simp add: demo_table_def)







text \<open>
  C6. In mode (b), for the first row of the selected country, a numeric target dimension and
  an improvement value, the simulated dimension value is the raw value plus the improvement
  (nothing caps or clamps it), and the simulated life satisfaction is the current one plus
  improvement times correlation times 0.3, the correlation being Pearson's coefficient of the
  life_satisfaction column and the dimension column of the whole filtered table (and NaN
  where that is undefined).
\<close>

theorem mode_b_simulation:
  assumes "selected kw sim_country_id (PStr ''United States'') = PStr name"
    and "rows_where df (\<lambda>c. c = name) = i # rest"
    and "numeric df ''life_satisfaction'' = Some ls"
    and "selected kw sim_dimension_id (PStr ''environment'') = PStr dname"
    and "numeric df dname = Some xs" "dname \<noteq> ''country''" "dname \<noteq> ''country_code''"
    and "selected kw sim_improvement_id (PNum 10) = PNum imp"
  shows "country df ! i = name
    \<and> (\<exists>fig ins others.
        simulator_update df kw = Inr ((fig, Insight ins, NoError), [])
      \<and> traces fig = others @
           [current_point name dname (xs ! i) (ls ! i),
            simulated_point name dname (xs ! i + imp)
              (map_option (\<lambda>c. ls ! i + imp * c * 0.3) (corr ls xs))]
      \<and> annotations fig =
           [Arrow (xs ! i + imp) (map_option (\<lambda>c. ls ! i + imp * c * 0.3) (corr ls xs))
              (xs ! i) (ls ! i)]
      \<and> ins_current_dimension_val ins = xs ! i \<and> ins_new_dimension_val ins = xs ! i + imp
      \<and> ins_current_life_sat ins = ls ! i
      \<and> ins_estimated_increase ins = map_option (\<lambda>c. imp * c * 0.3) (corr ls xs)
      \<and> ins_new_life_sat ins = map_option (\<lambda>c. ls ! i + imp * c * 0.3) (corr ls xs))"
  using simulator_update_result[OF assms] rows_where_Cons(3)[OF assms(2)] by simp

text \<open>C6 for Finland, social_connections and 10 points: the simulated value is 105.\<close>

theorem mode_b_simulation_witness:
  "selected finland_social sim_country_id (PStr ''United States'') = PStr ''Finland''
   \<and> rows_where demo_table (\<lambda>c. c = ''Finland'') = [0]
   \<and> selected finland_social sim_improvement_id (PNum 10) = PNum 10
   \<and> (\<exists>fig ins others.
        simulator_update demo_table finland_social = Inr ((fig, Insight ins, NoError), [])
      \<and> traces fig = others @
           [current_point ''Finland'' ''social_connections'' 95 100,
            simulated_point ''Finland'' ''social_connections'' 105
              (map_option (\<lambda>c. 100 + 10 * c * 0.3) (corr [100, 90, 0] [95, 85, 0]))]
      \<and> ins_new_dimension_val ins = 105)
   \<and> (105 :: real) > 100"
proof -
  have ls: "numeric demo_table ''life_satisfaction'' = Some [100, 90, 0]"
    and xs: "numeric demo_table ''social_connections'' = Some [95, 85, 0]"
    by (simp_all add: demo_table_def)
  have country: "selected finland_social sim_country_id (PStr ''United States'') = PStr ''Finland''"
    and dim: "selected finland_social sim_dimension_id (PStr ''environment'')
                = PStr ''social_connections''"
    and imp: "selected finland_social sim_improvement_id (PNum 10) = PNum 10"
    by (simp_all add: selected_def finland_social_def kwargs_get_def or_default_def
          sim_country_id_def sim_dimension_id_def sim_improvement_id_def)
  from mode_b_simulation[OF country rows_finland ls dim xs _ _ imp]
  show ?thesis using country rows_finland imp by simp blast
qed

section \<open>Properties of the narrative generator\<close>















lemma length_sort_gaps [simp]: "length (sort_gaps ds) = length ds"
  by (simp add: sort_gaps_def)





section \<open>Properties of the callbacks\<close>

lemma ordinary_Inr [simp]: "ordinary (Inr v)"
  by (simp add: ordinary_def)

lemma ordinary_Inl [simp]: "ordinary (Inl e) = is_Exception e"
  by (simp add: ordinary_def)

lemma ordinary_bind:
  "ordinary m \<Longrightarrow> (\<And>v. ordinary (f v)) \<Longrightarrow> ordinary (bind_err m f)"
  by (cases m) (simp_all add: bind_err_def)

lemma is_Exception_simps [simp]:
  "is_Exception (KeyError k)" "is_Exception TypeError" "is_Exception ValueError"
  "is_Exception AttributeError" "is_Exception IndexError"
  "\<not> is_Exception KeyboardInterrupt" "\<not> is_Exception SystemExit"
  by (simp_all add: is_Exception_def)

lemma ordinary_getitem [simp]: "ordinary (getitem df key)"
  by (simp add: getitem_def split: pyval.splits option.splits)

lemma ordinary_as_number [simp]: "ordinary (as_number v)"
  by (simp add: as_number_def split: pyval.splits)

lemma ordinary_as_numeric [simp]: "ordinary (as_numeric col)"
  by (simp add: as_numeric_def split: column.splits)

lemma ordinary_dimension_title [simp]: "ordinary (dimension_title d)"
  by (simp add: dimension_title_def split: pyval.splits)

lemma ordinary_boosted [simp]: "ordinary (boosted df name boost)"
  unfolding boosted_def by (intro ordinary_bind) simp_all

lemma ordinary_weighted [simp]: "ordinary (weighted df col k)"
  unfolding weighted_def by (intro ordinary_bind) simp_all

lemma ordinary_add_terms [simp]: "ordinary (add_terms df ts acc)"
  by (induction ts arbitrary: acc) (simp_all add: ordinary_bind)

lemma ordinary_life_satisfaction_sim [simp]: "ordinary (life_satisfaction_sim df)"
  unfolding life_satisfaction_sim_def
  by (intro ordinary_bind ordinary_weighted ordinary_add_terms)

lemma ordinary_sim_frame [simp]: "ordinary (sim_frame df e d j)"
  unfolding sim_frame_def Let_def by (intro ordinary_bind) simp_all

lemma ordinary_dimension_sim [simp]: "ordinary (dimension_sim df d)"
  by (simp add: dimension_sim_def)

lemma ordinary_arrows [simp]: "ordinary (arrows n dsim d lsim ls)"
  unfolding arrows_def by (auto intro!: ordinary_bind)

text \<open>The update logic of each feature raises nothing but exceptions deriving from \<open>Exception\<close>.\<close>

lemma ordinary_policy_update_logic: "ordinary (policy_update_logic df kw)"
  unfolding policy_update_logic_def Let_def
  by (auto intro!: ordinary_bind)

lemma ordinary_simulate: "ordinary (simulate df name i dimension improvement)"
  unfolding simulate_def Let_def
  by (auto intro!: ordinary_bind split: column.splits)

lemma ordinary_simulator_update_logic: "ordinary (simulator_update_logic df kw)"
  unfolding simulator_update_logic_def Let_def
  by (auto simp: ordinary_simulate split: pyval.splits list.splits)

lemma ordinary_top_performer [simp]: "ordinary (top_performer df)"
  unfolding top_performer_def composite_scores_def
  by (auto intro!: ordinary_bind split: option.splits list.splits)

lemma ordinary_generate_narrative [simp]: "ordinary (generate_narrative name gaps df)"
  unfolding generate_narrative_def Let_def by (intro ordinary_bind) simp_all

lemma ordinary_diagnosis_update_logic: "ordinary (diagnosis_update_logic df kw)"
  unfolding diagnosis_update_logic_def Let_def
  by (auto intro!: ordinary_bind split: pyval.splits list.splits)

lemma raised_is_Exception: "ordinary m \<Longrightarrow> m = Inl e \<Longrightarrow> is_Exception e"
  by simp

text \<open>
  C8. Whatever the table and the arguments, each feature's callback returns and does not
  raise: every exception that its update logic can raise derives from \<open>Exception\<close>, the
  handler catches it, prints the error message and returns the placeholder figure annotated
  ``An error occurred while updating this chart'' together with the error text (and the
  error narrative, where the feature has one); when the logic raises nothing, the callback
  returns its result with an empty error text and prints nothing.
\<close>

theorem update_never_raises:
  "(\<exists>out. policy_update df kw = Inr out)
   \<and> (\<exists>out. simulator_update df kw = Inr out)
   \<and> (\<exists>out. diagnosis_update df kw = Inr out)
   \<and> (\<forall>e. policy_update_logic df kw = Inl e \<longrightarrow>
         policy_update df kw
           = Inr ((error_figure, ErrorUpdatingChart e), [ErrorUpdatingChart e]))
   \<and> (\<forall>e. simulator_update_logic df kw = Inl e \<longrightarrow>
         simulator_update df kw
           = Inr ((error_figure, ErrorGenerating, ErrorUpdatingChart e), [ErrorUpdatingChart e]))
   \<and> (\<forall>e. diagnosis_update_logic df kw = Inl e \<longrightarrow>
         diagnosis_update df kw
           = Inr ((error_figure, ErrorGenerating, ErrorUpdatingChart e), [ErrorUpdatingChart e]))
   \<and> (\<forall>fig. policy_update_logic df kw = Inr fig \<longrightarrow>
         policy_update df kw = Inr ((fig, NoError), []))
   \<and> (\<forall>fig narr. simulator_update_logic df kw = Inr (fig, narr) \<longrightarrow>
         simulator_update df kw = Inr ((fig, narr, NoError), []))
   \<and> (\<forall>fig narr. diagnosis_update_logic df kw = Inr (fig, narr) \<longrightarrow>
         diagnosis_update df kw = Inr ((fig, narr, NoError), []))"
proof -
  have p: "policy_update df kw
      = Inr ((error_figure, ErrorUpdatingChart e), [ErrorUpdatingChart e])"
    if "policy_update_logic df kw = Inl e" for e
    using raised_is_Exception[OF ordinary_policy_update_logic that] that
    by (simp add: policy_update_def Let_def)
  have s: "simulator_update df kw
      = Inr ((error_figure, ErrorGenerating, ErrorUpdatingChart e), [ErrorUpdatingChart e])"
    if "simulator_update_logic df kw = Inl e" for e
    using raised_is_Exception[OF ordinary_simulator_update_logic that] that
    by (simp add: simulator_update_def Let_def)
  have d: "diagnosis_update df kw
      = Inr ((error_figure, ErrorGenerating, ErrorUpdatingChart e), [ErrorUpdatingChart e])"
    if "diagnosis_update_logic df kw = Inl e" for e
    using raised_is_Exception[OF ordinary_diagnosis_update_logic that] that
    by (simp add: diagnosis_update_def Let_def)
  have p': "policy_update df kw = Inr ((fig, NoError), [])"
    if "policy_update_logic df kw = Inr fig" for fig
    using that by (simp add: policy_update_def Let_def)
  have s': "simulator_update df kw = Inr ((fig, narr, NoError), [])"
    if "simulator_update_logic df kw = Inr (fig, narr)" for fig narr
    using that by (simp add: simulator_update_def Let_def)
  have d': "diagnosis_update df kw = Inr ((fig, narr, NoError), [])"
    if "diagnosis_update_logic df kw = Inr (fig, narr)" for fig narr
    using that by (simp add: diagnosis_update_def Let_def)
  have 1: "\<exists>out. policy_update df kw = Inr out"
    using p p' by (cases "policy_update_logic df kw") auto
  have 2: "\<exists>out. simulator_update df kw = Inr out"
    using s s' by (cases "simulator_update_logic df kw") auto
  have 3: "\<exists>out. diagnosis_update df kw = Inr out"
    using d d' by (cases "diagnosis_update_logic df kw") auto
  show ?thesis using 1 2 3 p s d p' s' d' by blast
qed

lemma policy_unknown_dimension:
  "policy_update_logic demo_table unknown_dimension = Inl (KeyError (PStr ''wealth''))"
  unfolding policy_update_logic_def
  by (simp add: len_demo_table unknown_dimension_def kwargs_get_def or_default_def
        policy_dimension_id_def environment_slider_id_def education_slider_id_def
        jobs_slider_id_def sim_frame_result[OF base_columnsD[OF base_columns_demo_table]]
        dimension_sim_def getitem_def Let_def)
     (simp add: demo_table_def)

lemma policy_text_boost:
  "policy_update_logic demo_table text_boost = Inl TypeError"
  unfolding policy_update_logic_def
  by (simp add: len_demo_table text_boost_def kwargs_get_def or_default_def
        policy_dimension_id_def environment_slider_id_def education_slider_id_def
        jobs_slider_id_def sim_frame_def boosted_def getitem_def as_number_def Let_def)
     (simp add: demo_table_def)

lemma simulator_text_dimension:
  "simulator_update_logic demo_table finland_by_name = Inl ValueError"
  unfolding simulator_update_logic_def
  by (simp add: len_demo_table finland_by_name_def kwargs_get_def or_default_def
        sim_country_id_def sim_dimension_id_def sim_improvement_id_def rows_finland
        simulate_def getitem_def as_numeric_def Let_def)
     (simp add: demo_table_def)

lemma rows_finland_no_composite: "rows_where no_composite (\<lambda>c. c = ''Finland'') = [0]"
  by (simp add: rows_where_def len_def no_composite_def upt_conv_Cons) (simp add: demo_table_def)

lemma diagnosis_no_composite:
  "diagnosis_update_logic no_composite no_inputs
     = Inl (KeyError (PStr ''Column not found: composite_index''))"
  unfolding diagnosis_update_logic_def
  by (simp add: no_inputs_def kwargs_get_def or_default_def rows_finland_no_composite
        generate_narrative_def top_performer_def composite_scores_def Let_def)
     (simp add: no_composite_def len_def demo_table_def)

lemma policy_no_inputs:
  "policy_update_logic demo_table no_inputs =
     Inr \<lparr>traces = [Scatter ''Current Position'' (NumCol [80, 70, 20]) (NumCol [100, 90, 0])
                      [''Finland'', ''Denmark'', ''Mexico'']
                      (hovertemplate ''<b>%{text}</b><br>'' ''Environment'' plain_tail)],
          annotations = [], xaxis_title = ''Environment'',
          yaxis_title = ''Life Satisfaction''\<rparr>"
proof -
  have ls: "numeric demo_table ''life_satisfaction'' = Some [100, 90, 0]"
    and xs: "numeric demo_table ''environment'' = Some [80, 70, 20]"
    by (simp_all add: demo_table_def)
  have dim: "selected no_inputs policy_dimension_id dimension_default = PStr ''environment''"
    by (simp add: selected_def no_inputs_def kwargs_get_def or_default_def dimension_default_def)
  have zero: "zero_boost (no_inputs environment_slider_id)"
    "zero_boost (no_inputs education_slider_id)" "zero_boost (no_inputs jobs_slider_id)"
    by (simp_all add: zero_boost_def no_inputs_def)
  have rows: "len demo_table \<noteq> 0" by (simp add: len_demo_table)
  have title: "py_title (replace_underscore ''environment'') = ''Environment''"
    by (simp add: py_title_def replace_underscore_def to_upper_def to_lower_def is_letter_def
          lower_letters_def upper_letters_def)
  have ctry: "country demo_table = [''Finland'', ''Denmark'', ''Mexico'']"
    by (simp add: demo_table_def)
  show ?thesis
    using policy_logic_zero[OF base_columns_demo_table rows ls dim xs _ _ zero]
    by (simp add: title ctry)
qed

text \<open>
  C8 where the logic does raise: an unknown dimension (KeyError), a slider value that is a
  text (TypeError), a text column as the dimension (ValueError), a table without
  composite_index (KeyError); and where it does not: no arguments on the three-country
  table.
\<close>

theorem update_never_raises_witness:
  "policy_update_logic demo_table unknown_dimension = Inl (KeyError (PStr ''wealth''))
   \<and> policy_update demo_table unknown_dimension
     = Inr ((error_figure, ErrorUpdatingChart (KeyError (PStr ''wealth''))),
            [ErrorUpdatingChart (KeyError (PStr ''wealth''))])
   \<and> policy_update_logic demo_table text_boost = Inl TypeError
   \<and> policy_update demo_table text_boost
     = Inr ((error_figure, ErrorUpdatingChart TypeError), [ErrorUpdatingChart TypeError])
   \<and> simulator_update_logic demo_table finland_by_name = Inl ValueError
   \<and> simulator_update demo_table finland_by_name
     = Inr ((error_figure, ErrorGenerating, ErrorUpdatingChart ValueError),
            [ErrorUpdatingChart ValueError])
   \<and> diagnosis_update_logic no_composite no_inputs
     = Inl (KeyError (PStr ''Column not found: composite_index''))
   \<and> diagnosis_update no_composite no_inputs
     = Inr ((error_figure, ErrorGenerating,
             ErrorUpdatingChart (KeyError (PStr ''Column not found: composite_index''))),
            [ErrorUpdatingChart (KeyError (PStr ''Column not found: composite_index''))])
   \<and> policy_update demo_table no_inputs =
       Inr ((\<lparr>traces = [Scatter ''Current Position'' (NumCol [80, 70, 20]) (NumCol [100, 90, 0])
                          [''Finland'', ''Denmark'', ''Mexico'']
                          (hovertemplate ''<b>%{text}</b><br>'' ''Environment'' plain_tail)],
              annotations = [], xaxis_title = ''Environment'',
              yaxis_title = ''Life Satisfaction''\<rparr>, NoError), [])"
  using update_never_raises[of demo_table unknown_dimension]
    update_never_raises[of demo_table text_boost]
    update_never_raises[of demo_table finland_by_name]
    update_never_raises[of no_composite no_inputs]
    update_never_raises[of demo_table no_inputs]
  by (simp add: policy_unknown_dimension policy_text_boost simulator_text_dimension
        diagnosis_no_composite policy_no_inputs)

lemma control_ids_distinct:
  "policy_dimension_id \<noteq> environment_slider_id" "policy_dimension_id \<noteq> education_slider_id"
  "policy_dimension_id \<noteq> jobs_slider_id" "environment_slider_id \<noteq> education_slider_id"
  "environment_slider_id \<noteq> jobs_slider_id" "education_slider_id \<noteq> jobs_slider_id"
  "sim_country_id \<noteq> sim_dimension_id" "sim_country_id \<noteq> sim_improvement_id"
  "sim_dimension_id \<noteq> sim_improvement_id"
  by (simp_all add: policy_dimension_id_def environment_slider_id_def education_slider_id_def
        jobs_slider_id_def sim_country_id_def sim_dimension_id_def sim_improvement_id_def)

lemma get_same:
  "or_default (kwargs_get (kw(k \<mapsto> PNone)) k dflt) dflt
     = or_default (kwargs_get (kw(k \<mapsto> dflt)) k dflt) dflt"
  by (simp add: or_default_def kwargs_get_def)

lemma get_other:
  "k \<noteq> k' \<Longrightarrow> kwargs_get (kw(k \<mapsto> v)) k' dflt = kwargs_get kw k' dflt"
  by (simp add: kwargs_get_def)

lemma policy_logic_None:
  "policy_update_logic df (kw(policy_dimension_id \<mapsto> PNone))
     = policy_update_logic df (kw(policy_dimension_id \<mapsto> dimension_default))"
  "policy_update_logic df (kw(environment_slider_id \<mapsto> PNone))
     = policy_update_logic df (kw(environment_slider_id \<mapsto> PNum 0))"
  "policy_update_logic df (kw(education_slider_id \<mapsto> PNone))
     = policy_update_logic df (kw(education_slider_id \<mapsto> PNum 0))"
  "policy_update_logic df (kw(jobs_slider_id \<mapsto> PNone))
     = policy_update_logic df (kw(jobs_slider_id \<mapsto> PNum 0))"
  unfolding policy_update_logic_def
  by (simp_all only: get_same get_other control_ids_distinct control_ids_distinct[symmetric]
        not_False_eq_True)

lemma simulator_logic_None:
  "simulator_update_logic df (kw(sim_country_id \<mapsto> PNone))
     = simulator_update_logic df (kw(sim_country_id \<mapsto> PStr ''United States''))"
  "simulator_update_logic df (kw(sim_dimension_id \<mapsto> PNone))
     = simulator_update_logic df (kw(sim_dimension_id \<mapsto> PStr ''environment''))"
  "simulator_update_logic df (kw(sim_improvement_id \<mapsto> PNone))
     = simulator_update_logic df (kw(sim_improvement_id \<mapsto> PNum 10))"
  unfolding simulator_update_logic_def
  by (simp_all only: get_same get_other control_ids_distinct control_ids_distinct[symmetric]
        not_False_eq_True)

lemma diagnosis_logic_None:
  "diagnosis_update_logic df (kw(diag_country_id \<mapsto> PNone))
     = diagnosis_update_logic df (kw(diag_country_id \<mapsto> PStr ''Finland''))"
  unfolding diagnosis_update_logic_def by (simp only: get_same)

text \<open>
  C10. At each feature's callback, \<open>None\<close> for a control gives the result that the
  control's default gives, whatever the table and the other arguments: dimension
  ``environment'' and boosts 0 in the policy scatter; country ``United States'', dimension
  ``environment'' and improvement 10 in the simulation insight; country ``Finland'' in the
  diagnostic.
\<close>

theorem none_is_default:
  "policy_update df (kw(policy_dimension_id \<mapsto> PNone))
     = policy_update df (kw(policy_dimension_id \<mapsto> PStr ''environment''))
   \<and> policy_update df (kw(environment_slider_id \<mapsto> PNone))
     = policy_update df (kw(environment_slider_id \<mapsto> PNum 0))
   \<and> policy_update df (kw(education_slider_id \<mapsto> PNone))
     = policy_update df (kw(education_slider_id \<mapsto> PNum 0))
   \<and> policy_update df (kw(jobs_slider_id \<mapsto> PNone))
     = policy_update df (kw(jobs_slider_id \<mapsto> PNum 0))
   \<and> simulator_update df (kw(sim_country_id \<mapsto> PNone))
     = simulator_update df (kw(sim_country_id \<mapsto> PStr ''United States''))
   \<and> simulator_update df (kw(sim_dimension_id \<mapsto> PNone))
     = simulator_update df (kw(sim_dimension_id \<mapsto> PStr ''environment''))
   \<and> simulator_update df (kw(sim_improvement_id \<mapsto> PNone))
     = simulator_update df (kw(sim_improvement_id \<mapsto> PNum 10))
   \<and> diagnosis_update df (kw(diag_country_id \<mapsto> PNone))
     = diagnosis_update df (kw(diag_country_id \<mapsto> PStr ''Finland''))"
  unfolding policy_update_def simulator_update_def diagnosis_update_def
    policy_logic_None simulator_logic_None diagnosis_logic_None
  by (simp add: dimension_default_def)

text \<open>
  C10 on the three-country table: \<open>None\<close> for the country of the simulation insight selects
  ``United States'', which the table does not have, and the feature reports that, without an
  error; \<open>None\<close> for the country of the diagnostic selects Finland.
\<close>

theorem none_is_default_witness:
  "simulator_update demo_table [sim_country_id \<mapsto> PNone]
     = Inr ((note_figure (NoDataFor (PStr ''United States'')),
             NoDataForCountry (PStr ''United States''), NoError), [])
   \<and> policy_update demo_table [environment_slider_id \<mapsto> PNone]
     = policy_update demo_table [environment_slider_id \<mapsto> PNum 0]
   \<and> diagnosis_update demo_table [diag_country_id \<mapsto> PNone]
     = diagnosis_update demo_table [diag_country_id \<mapsto> PStr ''Finland'']"
proof -
  have "simulator_update demo_table [sim_country_id \<mapsto> PStr ''United States'']
     = Inr ((note_figure (NoDataFor (PStr ''United States'')),
             NoDataForCountry (PStr ''United States''), NoError), [])"
    unfolding simulator_update_def simulator_update_logic_def
    by (simp add: len_demo_table kwargs_get_def or_default_def rows_where_def upt_conv_Cons
          sim_country_id_def sim_dimension_id_def sim_improvement_id_def)
       (simp add: demo_table_def Let_def)
  then show ?thesis using none_is_default[of demo_table Map.empty] by simp
qed

end
